theory Spec2Isabelle
  imports Complex_Main
begin

section \<open>Calendar arithmetic used by the date dimension\<close>

text \<open>
  A calendar day is its proleptic Gregorian ordinal (day 1 is 0001-01-01), the
  representation behind the date library that \<open>build_dim_date\<close> calls. The functions
  below are the library's conversions between ordinals and (year, month, day), its
  weekday (Monday is 0) and its ISO calendar week.
\<close>

type_synonym date = int

definition is_leap :: "int \<Rightarrow> bool" where
  "is_leap y = (y mod 4 = 0 \<and> (y mod 100 \<noteq> 0 \<or> y mod 400 = 0))"

definition days_before_year :: "int \<Rightarrow> int" where
  "days_before_year y = (let z = y - 1 in z * 365 + z div 4 - z div 100 + z div 400)"

definition DAYS_IN_MONTH :: "int list" where
  "DAYS_IN_MONTH = [-1, 31, 28, 31, 30, 31, 30, 31, 31, 30, 31, 30, 31]"

definition DAYS_BEFORE_MONTH :: "int list" where
  "DAYS_BEFORE_MONTH = [-1, 0, 31, 59, 90, 120, 151, 181, 212, 243, 273, 304, 334]"

definition days_before_month :: "int \<Rightarrow> int \<Rightarrow> int" where
  "days_before_month y m =
     DAYS_BEFORE_MONTH ! nat m + (if m > 2 \<and> is_leap y then 1 else 0)"

definition ymd2ord :: "int \<Rightarrow> int \<Rightarrow> int \<Rightarrow> date" where
  "ymd2ord y m d = days_before_year y + days_before_month y m + d"

definition ord2ymd :: "date \<Rightarrow> int \<times> int \<times> int" where
  "ord2ymd n0 =
     (let n = n0 - 1;
          n400 = n div 146097; n = n mod 146097;
          y = n400 * 400 + 1;
          n100 = n div 36524; n = n mod 36524;
          n4 = n div 1461; n = n mod 1461;
          n1 = n div 365; n = n mod 365;
          y = y + n100 * 100 + n4 * 4 + n1
      in if n1 = 4 \<or> n100 = 4 then (y - 1, 12, 31)
         else
           let leapyear = (n1 = 3 \<and> (n4 \<noteq> 24 \<or> n100 = 3));
               m = (n + 50) div 32;
               preceding = DAYS_BEFORE_MONTH ! nat m + (if m > 2 \<and> leapyear then 1 else 0)
           in if preceding > n
              then
                let m' = m - 1;
                    preceding' = preceding -
                      (DAYS_IN_MONTH ! nat m' + (if m' = 2 \<and> leapyear then 1 else 0))
                in (y, m', n - preceding' + 1)
              else (y, m, n - preceding + 1))"

definition dayofweek :: "date \<Rightarrow> int" where
  "dayofweek d = (d + 6) mod 7"

definition isoweek1monday :: "int \<Rightarrow> date" where
  "isoweek1monday y =
     (let firstday = ymd2ord y 1 1;
          firstweekday = (firstday + 6) mod 7;
          week1monday = firstday - firstweekday
      in if firstweekday > 3 then week1monday + 7 else week1monday)"

definition isocalendar_week :: "date \<Rightarrow> int" where
  "isocalendar_week d =
     (let y = fst (ord2ymd d);
          week = (d - isoweek1monday y) div 7
      in if week < 0 then (d - isoweek1monday (y - 1)) div 7 + 1
         else if week \<ge> 52 \<and> d \<ge> isoweek1monday (y + 1) then 1
         else week + 1)"

definition DAY_NAMES :: "string list" where
  "DAY_NAMES = [''Monday'', ''Tuesday'', ''Wednesday'', ''Thursday'', ''Friday'',
                ''Saturday'', ''Sunday'']"

definition MONTH_NAMES :: "string list" where
  "MONTH_NAMES = [''January'', ''February'', ''March'', ''April'', ''May'', ''June'',
                  ''July'', ''August'', ''September'', ''October'', ''November'',
                  ''December'']"

text \<open>\<open>pd.date_range(start, end, freq='D')\<close>: every day from start to end, both included.\<close>

definition date_range :: "date \<Rightarrow> date \<Rightarrow> date list" where
  "date_range start_date end_date = [start_date..end_date]"

section \<open>Tables\<close>

subsection \<open>Production and staging rows\<close>

record customer_info =
  first_name :: string
  last_name :: string
  email :: string
  phone :: string
  city :: string
  state :: string
  country :: string
  age_group :: string
  registration_date :: date

record customer =
  c_customer_id :: string
  c_info :: customer_info
  c_is_active :: bool

record product_info =
  product_name :: string
  category :: string
  sub_category :: string
  price :: rat
  cost :: rat
  brand :: string

record product =
  p_product_id :: string
  p_info :: product_info
  p_is_active :: bool

record transaction =
  t_transaction_id :: string
  t_customer_id :: string
  t_transaction_date :: date
  t_payment_method :: string
  t_total_amount :: rat
  t_shipping_address :: string

record transaction_item =
  ti_item_id :: string
  ti_transaction_id :: string
  ti_product_id :: string
  ti_quantity :: int
  ti_unit_price :: rat
  ti_discount_percentage :: rat
  ti_line_total :: rat

subsection \<open>Warehouse rows\<close>

record dim_customer =
  dc_customer_sk :: nat
  dc_customer_id :: string
  dc_info :: customer_info
  dc_is_current :: bool
  dc_effective_date :: date
  dc_end_date :: "date option"

record dim_product =
  dp_product_sk :: nat
  dp_product_id :: string
  dp_info :: product_info
  dp_is_current :: bool
  dp_effective_date :: date
  dp_end_date :: "date option"

text \<open>The dictionary that \<open>build_dim_date\<close> builds for one day.\<close>

record date_row =
  date_id :: date
  day_of_month :: int
  day_of_week :: int
  day_name :: string
  month :: int
  month_name :: string
  quarter :: int
  year :: int
  week_of_year :: int
  is_weekend :: bool

record dim_date_row =
  dd_date_sk :: nat
  dd_row :: date_row

text \<open>The tuple that the SELECT of \<open>build_dim_payment_method\<close> derives from one label.\<close>

record payment_method_row =
  payment_method_id :: string
  payment_method_name :: string
  pm_category :: string
  pm_is_active :: bool

record dim_payment_method_row =
  dpm_payment_method_sk :: nat
  dpm_row :: payment_method_row

record fact_sale =
  fs_transaction_id :: string
  fs_item_id :: string
  fs_customer_sk :: nat
  fs_product_sk :: nat
  fs_date_sk :: nat
  fs_payment_method_sk :: "nat option"
  fs_quantity :: int
  fs_unit_price :: rat
  fs_discount_percentage :: rat
  fs_line_total :: rat
  fs_transaction_total :: rat
  fs_shipping_address :: string

record agg_daily_sale =
  ads_date_sk :: nat
  ads_total_sales :: rat
  ads_total_units_sold :: int
  ads_transaction_count :: nat
  ads_customer_count :: nat
  ads_avg_transaction_value :: rat

record agg_product_sale =
  aps_product_sk :: nat
  aps_total_sales :: rat
  aps_total_units_sold :: int
  aps_transaction_count :: nat
  aps_avg_discount :: rat

record agg_customer =
  acl_customer_sk :: nat
  acl_total_spent :: rat
  acl_total_units_purchased :: int
  acl_transaction_count :: nat
  acl_first_purchase_date :: date
  acl_last_purchase_date :: date
  acl_avg_transaction_value :: rat

subsection \<open>The relational store\<close>

text \<open>
  Everything the connection reaches: the production and staging tables that are read,
  the warehouse tables that are written, and one sequence per generated surrogate key.
\<close>

text \<open>
  Modelled from the spec: the declarations of the warehouse tables are not among the
  sources. No insert statement supplies a surrogate key, and the spec calls the
  surrogate key a generated, warehouse-internal identifier; so every dimension row
  takes its key from a sequence of its table when it is inserted.
\<close>

record store =
  production_customers :: "customer list"
  production_products :: "product list"
  production_transactions :: "transaction list"
  production_transaction_items :: "transaction_item list"
  staging_transactions :: "transaction list"
  dim_customers :: "dim_customer list"
  dim_products :: "dim_product list"
  dim_date :: "dim_date_row list"
  dim_payment_method :: "dim_payment_method_row list"
  fact_sales :: "fact_sale list"
  agg_daily_sales :: "agg_daily_sale list"
  agg_product_sales :: "agg_product_sale list"
  agg_customer_lifetime :: "agg_customer list"
  seq_customer_sk :: nat
  seq_product_sk :: nat
  seq_date_sk :: nat
  seq_payment_method_sk :: nat

definition empty_store :: store where
  "empty_store =
     \<lparr>production_customers = [], production_products = [], production_transactions = [],
      production_transaction_items = [], staging_transactions = [],
      dim_customers = [], dim_products = [], dim_date = [], dim_payment_method = [],
      fact_sales = [], agg_daily_sales = [], agg_product_sales = [],
      agg_customer_lifetime = [],
      seq_customer_sk = 0, seq_product_sk = 0, seq_date_sk = 0,
      seq_payment_method_sk = 0\<rparr>"

section \<open>INSERT ... ON CONFLICT DO NOTHING\<close>

text \<open>
  The candidate rows are inserted one after the other. A candidate that conflicts with a
  row of the table, one inserted earlier by the same statement included, is dropped.
  An inserted row takes the next value of the surrogate-key sequence. The result is
  the table, the sequence and the statement's row count.
\<close>

fun insert_on_conflict ::
  "('r \<Rightarrow> 'r \<Rightarrow> bool) \<Rightarrow> (nat \<Rightarrow> 'c \<Rightarrow> 'r) \<Rightarrow> 'c list \<Rightarrow> 'r list \<times> nat \<times> nat \<Rightarrow> 'r list \<times> nat \<times> nat"
where
  "insert_on_conflict conflicts mk [] acc = acc"
| "insert_on_conflict conflicts mk (c # cs) (tbl, sq, cnt) =
     (let r = mk (Suc sq) c
      in if list_ex (\<lambda>r'. conflicts r' r) tbl
         then insert_on_conflict conflicts mk cs (tbl, sq, cnt)
         else insert_on_conflict conflicts mk cs (tbl @ [r], Suc sq, Suc cnt))"

text \<open>
  Modelled from the spec: the warehouse schema (the tables' keys and uniqueness
  constraints) is not among the sources. For the customer and product dimensions the
  spec makes the insert conditional on the absence of a dimension row with the same
  business key; for the aggregates it makes the insert skip on the grouping key.
\<close>

definition dim_customers_conflict :: "dim_customer \<Rightarrow> dim_customer \<Rightarrow> bool" where
  "dim_customers_conflict r r' = (dc_customer_id r = dc_customer_id r')"

definition dim_products_conflict :: "dim_product \<Rightarrow> dim_product \<Rightarrow> bool" where
  "dim_products_conflict r r' = (dp_product_id r = dp_product_id r')"

definition agg_daily_sales_conflict :: "agg_daily_sale \<Rightarrow> agg_daily_sale \<Rightarrow> bool" where
  "agg_daily_sales_conflict r r' = (ads_date_sk r = ads_date_sk r')"

definition agg_product_sales_conflict :: "agg_product_sale \<Rightarrow> agg_product_sale \<Rightarrow> bool" where
  "agg_product_sales_conflict r r' = (aps_product_sk r = aps_product_sk r')"

definition agg_customer_lifetime_conflict :: "agg_customer \<Rightarrow> agg_customer \<Rightarrow> bool" where
  "agg_customer_lifetime_conflict r r' = (acl_customer_sk r = acl_customer_sk r')"

text \<open>\<open>ON CONFLICT (payment_method_id)\<close>, as the statement itself names it.\<close>

definition dim_payment_method_conflict ::
  "dim_payment_method_row \<Rightarrow> dim_payment_method_row \<Rightarrow> bool" where
  "dim_payment_method_conflict r r' =
     (payment_method_id (dpm_row r) = payment_method_id (dpm_row r'))"

section \<open>Dimension builders\<close>

text \<open>\<open>CURRENT_DATE\<close> is the parameter \<open>today\<close> of every statement that reads it.\<close>

definition build_dim_customers :: "date \<Rightarrow> store \<Rightarrow> store \<times> nat" where
  "build_dim_customers today s =
     (let mk = (\<lambda>sk c. \<lparr>dc_customer_sk = sk, dc_customer_id = c_customer_id c,
                          dc_info = c_info c, dc_is_current = True,
                          dc_effective_date = today, dc_end_date = None\<rparr>);
          res = insert_on_conflict dim_customers_conflict mk
                  (filter c_is_active (production_customers s))
                  (dim_customers s, seq_customer_sk s, 0)
      in (s\<lparr>dim_customers := fst res, seq_customer_sk := fst (snd res)\<rparr>, snd (snd res)))"

definition build_dim_products :: "date \<Rightarrow> store \<Rightarrow> store \<times> nat" where
  "build_dim_products today s =
     (let mk = (\<lambda>sk p. \<lparr>dp_product_sk = sk, dp_product_id = p_product_id p,
                          dp_info = p_info p, dp_is_current = True,
                          dp_effective_date = today, dp_end_date = None\<rparr>);
          res = insert_on_conflict dim_products_conflict mk
                  (filter p_is_active (production_products s))
                  (dim_products s, seq_product_sk s, 0)
      in (s\<lparr>dim_products := fst res, seq_product_sk := fst (snd res)\<rparr>, snd (snd res)))"

subsection \<open>Date dimension\<close>

definition date_attributes :: "date \<Rightarrow> date_row" where
  "date_attributes d =
     (let ymd = ord2ymd d; y = fst ymd; m = fst (snd ymd); dom = snd (snd ymd)
      in \<lparr>date_id = d,
          day_of_month = dom,
          day_of_week = dayofweek d + 1,
          day_name = DAY_NAMES ! nat (dayofweek d),
          month = m,
          month_name = MONTH_NAMES ! nat (m - 1),
          quarter = (m - 1) div 3 + 1,
          year = y,
          week_of_year = isocalendar_week d,
          is_weekend = (dayofweek d \<ge> 5)\<rparr>)"

definition build_dim_date_rows :: "date \<Rightarrow> date \<Rightarrow> date_row list" where
  "build_dim_date_rows start_date end_date = map date_attributes (date_range start_date end_date)"

datatype step =
  DimCustomers | DimProducts | DimDate | DimPaymentMethod | FactSales
  | AggDailySales | AggProductSales | AggCustomerLifetime | ScdCustomers | ScdProducts

datatype error = ValueError | StoreError step

text \<open>
  The two arguments are the texts \<open>str(min_date)\<close> and \<open>str(max_date)\<close>:
  \<open>Some d\<close> is the text of the day \<open>d\<close>, \<open>None\<close> the text of Python's \<open>None\<close>, which
  \<open>pd.date_range\<close> refuses as a date with a \<open>ValueError\<close>. The rows are appended
  (\<open>if_exists="append"\<close>), each with the next value of the key sequence.
\<close>

definition build_dim_date :: "date option \<Rightarrow> date option \<Rightarrow> store \<Rightarrow> error + store \<times> nat" where
  "build_dim_date start_date end_date s =
     (case (start_date, end_date) of
        (Some a, Some b) \<Rightarrow>
          (let rows = build_dim_date_rows a b;
               res = insert_on_conflict (\<lambda>r r'. False)
                       (\<lambda>sk r. \<lparr>dd_date_sk = sk, dd_row = r\<rparr>) rows
                       (dim_date s, seq_date_sk s, 0)
           in Inr (s\<lparr>dim_date := fst res, seq_date_sk := fst (snd res)\<rparr>, length rows))
      | _ \<Rightarrow> Inl ValueError)"

subsection \<open>Payment-method dimension\<close>

definition lower_char :: "char \<Rightarrow> char" where
  "lower_char c =
     (let n = (of_char c :: nat) in if 65 \<le> n \<and> n \<le> 90 then char_of (n + 32) else c)"

definition LOWER :: "string \<Rightarrow> string" where
  "LOWER x = map lower_char x"

definition REPLACE :: "string \<Rightarrow> char \<Rightarrow> char \<Rightarrow> string" where
  "REPLACE x a b = map (\<lambda>c. if c = a then b else c) x"

definition payment_method_key :: "string \<Rightarrow> string" where
  "payment_method_key label = LOWER (REPLACE label (CHR '' '') (CHR ''_''))"

definition payment_method_category :: "string \<Rightarrow> string" where
  "payment_method_category label =
     (if label = ''Credit Card'' \<or> label = ''Debit Card'' then ''Card''
      else if label = ''UPI'' then ''Digital''
      else if label = ''Net Banking'' then ''Digital''
      else if label = ''Cash on Delivery'' then ''Cash''
      else ''Other'')"

definition payment_method_of :: "string \<Rightarrow> payment_method_row" where
  "payment_method_of label =
     \<lparr>payment_method_id = payment_method_key label,
      payment_method_name = label,
      pm_category = payment_method_category label,
      pm_is_active = True\<rparr>"

text \<open>\<open>SELECT DISTINCT ... FROM staging.transactions\<close>, in the order of the table.\<close>

definition payment_method_select :: "store \<Rightarrow> payment_method_row list" where
  "payment_method_select s =
     remdups (map (\<lambda>t. payment_method_of (t_payment_method t)) (staging_transactions s))"

definition build_dim_payment_method :: "store \<Rightarrow> store \<times> nat" where
  "build_dim_payment_method s =
     (let res = insert_on_conflict dim_payment_method_conflict
                  (\<lambda>sk r. \<lparr>dpm_payment_method_sk = sk, dpm_row = r\<rparr>)
                  (payment_method_select s)
                  (dim_payment_method s, seq_payment_method_sk s, 0)
      in (s\<lparr>dim_payment_method := fst res, seq_payment_method_sk := fst (snd res)\<rparr>,
          snd (snd res)))"

section \<open>Fact loader\<close>

text \<open>
  The joins of one line item: its transactions, the current customer and product
  versions, the date row of the transaction date and, by a left join, the payment
  method (absent when none matches).
\<close>

type_synonym fact_source =
  "transaction_item \<times> transaction \<times> dim_customer \<times> dim_product \<times> dim_date_row
   \<times> dim_payment_method_row option"

definition left_join :: "'a list \<Rightarrow> 'a option list" where
  "left_join matches = (if matches = [] then [None] else map Some matches)"

definition join_item :: "store \<Rightarrow> transaction_item \<Rightarrow> fact_source list" where
  "join_item s ti =
     concat (map (\<lambda>t.
       concat (map (\<lambda>dc.
         concat (map (\<lambda>dp.
           concat (map (\<lambda>dd.
             map (\<lambda>dpm. (ti, t, dc, dp, dd, dpm))
               (left_join (filter (\<lambda>dpm. payment_method_key (t_payment_method t)
                                           = payment_method_id (dpm_row dpm))
                             (dim_payment_method s))))
             (filter (\<lambda>dd. t_transaction_date t = date_id (dd_row dd)) (dim_date s))))
           (filter (\<lambda>dp. ti_product_id ti = dp_product_id dp \<and> dp_is_current dp)
              (dim_products s))))
         (filter (\<lambda>dc. t_customer_id t = dc_customer_id dc \<and> dc_is_current dc)
            (dim_customers s))))
       (filter (\<lambda>t. ti_transaction_id ti = t_transaction_id t)
          (production_transactions s)))"

text \<open>\<open>WHERE NOT EXISTS (SELECT 1 FROM warehouse.fact_sales fs WHERE fs.item_id = ti.item_id)\<close>,
  read on the fact table as it is when the statement starts.\<close>

definition already_loaded :: "store \<Rightarrow> transaction_item \<Rightarrow> bool" where
  "already_loaded s ti = list_ex (\<lambda>fs. fs_item_id fs = ti_item_id ti) (fact_sales s)"

definition fact_sales_select :: "store \<Rightarrow> fact_source list" where
  "fact_sales_select s =
     concat (map (join_item s)
       (filter (\<lambda>ti. \<not> already_loaded s ti) (production_transaction_items s)))"

fun fact_row :: "fact_source \<Rightarrow> fact_sale" where
  "fact_row (ti, t, dc, dp, dd, dpm) =
     \<lparr>fs_transaction_id = t_transaction_id t,
      fs_item_id = ti_item_id ti,
      fs_customer_sk = dc_customer_sk dc,
      fs_product_sk = dp_product_sk dp,
      fs_date_sk = dd_date_sk dd,
      fs_payment_method_sk = map_option dpm_payment_method_sk dpm,
      fs_quantity = ti_quantity ti,
      fs_unit_price = ti_unit_price ti,
      fs_discount_percentage = ti_discount_percentage ti,
      fs_line_total = ti_line_total ti,
      fs_transaction_total = t_total_amount t,
      fs_shipping_address = t_shipping_address t\<rparr>"

definition build_fact_sales :: "store \<Rightarrow> store \<times> nat" where
  "build_fact_sales s =
     (let rows = map fact_row (fact_sales_select s)
      in (s\<lparr>fact_sales := fact_sales s @ rows\<rparr>, length rows))"

section \<open>Aggregate builder\<close>

text \<open>
  \<open>GROUP BY\<close>: one group per distinct key, holding the rows with that key. \<open>AVG\<close> is the
  sum over the count, \<open>COUNT(DISTINCT x)\<close> the number of distinct values.
\<close>

definition group_keys :: "('a \<Rightarrow> 'k) \<Rightarrow> 'a list \<Rightarrow> 'k list" where
  "group_keys key rows = remdups (map key rows)"

definition group_rows :: "('a \<Rightarrow> 'k) \<Rightarrow> 'a list \<Rightarrow> 'k \<Rightarrow> 'a list" where
  "group_rows key rows k = filter (\<lambda>r. key r = k) rows"

definition SUM_list :: "'a::monoid_add list \<Rightarrow> 'a" where
  "SUM_list xs = sum_list xs"

definition COUNT_DISTINCT :: "'a list \<Rightarrow> nat" where
  "COUNT_DISTINCT xs = length (remdups xs)"

definition AVG :: "rat list \<Rightarrow> rat" where
  "AVG xs = sum_list xs / of_nat (length xs)"

definition agg_daily_sales_select :: "store \<Rightarrow> agg_daily_sale list" where
  "agg_daily_sales_select s =
     map (\<lambda>k. let g = group_rows fs_date_sk (fact_sales s) k
              in \<lparr>ads_date_sk = k,
                  ads_total_sales = SUM_list (map fs_line_total g),
                  ads_total_units_sold = SUM_list (map fs_quantity g),
                  ads_transaction_count = COUNT_DISTINCT (map fs_transaction_id g),
                  ads_customer_count = COUNT_DISTINCT (map fs_customer_sk g),
                  ads_avg_transaction_value = AVG (map fs_transaction_total g)\<rparr>)
       (group_keys fs_date_sk (fact_sales s))"

definition build_agg_daily_sales :: "store \<Rightarrow> store \<times> nat" where
  "build_agg_daily_sales s =
     (let res = insert_on_conflict agg_daily_sales_conflict (\<lambda>sk r. r)
                  (agg_daily_sales_select s) (agg_daily_sales s, 0, 0)
      in (s\<lparr>agg_daily_sales := fst res\<rparr>, snd (snd res)))"

definition agg_product_sales_select :: "store \<Rightarrow> agg_product_sale list" where
  "agg_product_sales_select s =
     map (\<lambda>k. let g = group_rows fs_product_sk (fact_sales s) k
              in \<lparr>aps_product_sk = k,
                  aps_total_sales = SUM_list (map fs_line_total g),
                  aps_total_units_sold = SUM_list (map fs_quantity g),
                  aps_transaction_count = COUNT_DISTINCT (map fs_transaction_id g),
                  aps_avg_discount = AVG (map fs_discount_percentage g)\<rparr>)
       (group_keys fs_product_sk (fact_sales s))"

definition build_agg_product_sales :: "store \<Rightarrow> store \<times> nat" where
  "build_agg_product_sales s =
     (let res = insert_on_conflict agg_product_sales_conflict (\<lambda>sk r. r)
                  (agg_product_sales_select s) (agg_product_sales s, 0, 0)
      in (s\<lparr>agg_product_sales := fst res\<rparr>, snd (snd res)))"

text \<open>\<open>FROM warehouse.fact_sales fs INNER JOIN warehouse.dim_date dd ON fs.date_sk = dd.date_sk\<close>\<close>

definition fact_date_join :: "store \<Rightarrow> (fact_sale \<times> dim_date_row) list" where
  "fact_date_join s =
     concat (map (\<lambda>f. map (\<lambda>dd. (f, dd))
                         (filter (\<lambda>dd. fs_date_sk f = dd_date_sk dd) (dim_date s)))
               (fact_sales s))"

definition agg_customer_lifetime_select :: "store \<Rightarrow> agg_customer list" where
  "agg_customer_lifetime_select s =
     map (\<lambda>k. let g = group_rows (\<lambda>j. fs_customer_sk (fst j)) (fact_date_join s) k
              in \<lparr>acl_customer_sk = k,
                  acl_total_spent = SUM_list (map (\<lambda>j. fs_line_total (fst j)) g),
                  acl_total_units_purchased = SUM_list (map (\<lambda>j. fs_quantity (fst j)) g),
                  acl_transaction_count = COUNT_DISTINCT (map (\<lambda>j. fs_transaction_id (fst j)) g),
                  acl_first_purchase_date = Min (set (map (\<lambda>j. date_id (dd_row (snd j))) g)),
                  acl_last_purchase_date = Max (set (map (\<lambda>j. date_id (dd_row (snd j))) g)),
                  acl_avg_transaction_value = AVG (map (\<lambda>j. fs_transaction_total (fst j)) g)\<rparr>)
       (group_keys (\<lambda>j. fs_customer_sk (fst j)) (fact_date_join s))"

definition build_agg_customer_lifetime :: "store \<Rightarrow> store \<times> nat" where
  "build_agg_customer_lifetime s =
     (let res = insert_on_conflict agg_customer_lifetime_conflict (\<lambda>sk r. r)
                  (agg_customer_lifetime_select s) (agg_customer_lifetime s, 0, 0)
      in (s\<lparr>agg_customer_lifetime := fst res\<rparr>, snd (snd res)))"

section \<open>SCD Type 2 retirement\<close>

record scd_result =
  dimension :: string
  records_updated :: nat
  status :: string

definition inactive_customer :: "store \<Rightarrow> dim_customer \<Rightarrow> bool" where
  "inactive_customer s r =
     (dc_is_current r \<and>
      dc_customer_id r \<in> set (map c_customer_id
                                (filter (\<lambda>c. \<not> c_is_active c) (production_customers s))))"

definition inactive_product :: "store \<Rightarrow> dim_product \<Rightarrow> bool" where
  "inactive_product s r =
     (dp_is_current r \<and>
      dp_product_id r \<in> set (map p_product_id
                               (filter (\<lambda>p. \<not> p_is_active p) (production_products s))))"

definition apply_scd_type2 :: "date \<Rightarrow> string \<Rightarrow> store \<Rightarrow> store \<times> scd_result" where
  "apply_scd_type2 today dimension_name s =
     (if dimension_name = ''dim_customers'' then
        (s\<lparr>dim_customers :=
             map (\<lambda>r. if inactive_customer s r
                      then r\<lparr>dc_is_current := False, dc_end_date := Some (today - 1)\<rparr>
                      else r) (dim_customers s)\<rparr>,
         \<lparr>dimension = dimension_name,
          records_updated = length (filter (inactive_customer s) (dim_customers s)),
          status = ''success''\<rparr>)
      else if dimension_name = ''dim_products'' then
        (s\<lparr>dim_products :=
             map (\<lambda>r. if inactive_product s r
                      then r\<lparr>dp_is_current := False, dp_end_date := Some (today - 1)\<rparr>
                      else r) (dim_products s)\<rparr>,
         \<lparr>dimension = dimension_name,
          records_updated = length (filter (inactive_product s) (dim_products s)),
          status = ''success''\<rparr>)
      else (s, \<lparr>dimension = dimension_name, records_updated = 0, status = ''success''\<rparr>))"

section \<open>The warehouse build\<close>

datatype log_value = Rows nat | Scd scd_result

text \<open>The build log: section, key and value of every assignment, in the order made.\<close>

type_synonym build_log = "(string \<times> string \<times> log_value) list"

text \<open>\<open>SELECT MIN(transaction_date), MAX(transaction_date) FROM production.transactions\<close>:
  both are NULL on an empty table.\<close>

definition transaction_date_range :: "store \<Rightarrow> date option \<times> date option" where
  "transaction_date_range s =
     (let ds = map t_transaction_date (production_transactions s)
      in if ds = [] then (None, None) else (Some (Min (set ds)), Some (Max (set ds))))"

text \<open>What a step of \<open>main\<close> does to the store, and the entry it writes to the build log.\<close>

definition step_effect ::
  "date \<Rightarrow> step \<Rightarrow> store \<Rightarrow> error + store \<times> (string \<times> string \<times> log_value)" where
  "step_effect today st s =
     (case st of
        DimCustomers \<Rightarrow>
          (let r = build_dim_customers today s
           in Inr (fst r, (''dimensions_built'', ''dim_customers'', Rows (snd r))))
      | DimProducts \<Rightarrow>
          (let r = build_dim_products today s
           in Inr (fst r, (''dimensions_built'', ''dim_products'', Rows (snd r))))
      | DimDate \<Rightarrow>
          (let dr = transaction_date_range s
           in case build_dim_date (fst dr) (snd dr) s of
                Inl e \<Rightarrow> Inl e
              | Inr r \<Rightarrow> Inr (fst r, (''dimensions_built'', ''dim_date'', Rows (snd r))))
      | DimPaymentMethod \<Rightarrow>
          (let r = build_dim_payment_method s
           in Inr (fst r, (''dimensions_built'', ''dim_payment_method'', Rows (snd r))))
      | FactSales \<Rightarrow>
          (let r = build_fact_sales s
           in Inr (fst r, (''fact_tables_built'', ''fact_sales'', Rows (snd r))))
      | AggDailySales \<Rightarrow>
          (let r = build_agg_daily_sales s
           in Inr (fst r, (''aggregates_built'', ''agg_daily_sales'', Rows (snd r))))
      | AggProductSales \<Rightarrow>
          (let r = build_agg_product_sales s
           in Inr (fst r, (''aggregates_built'', ''agg_product_sales'', Rows (snd r))))
      | AggCustomerLifetime \<Rightarrow>
          (let r = build_agg_customer_lifetime s
           in Inr (fst r, (''aggregates_built'', ''agg_customer_lifetime'', Rows (snd r))))
      | ScdCustomers \<Rightarrow>
          (let r = apply_scd_type2 today ''dim_customers'' s
           in Inr (fst r, (''scd_updates'', ''dim_customers'', Scd (snd r))))
      | ScdProducts \<Rightarrow>
          (let r = apply_scd_type2 today ''dim_products'' s
           in Inr (fst r, (''scd_updates'', ''dim_products'', Scd (snd r)))))"

text \<open>
  The store is outside the program: whether it raises on the statement of a step is
  the parameter \<open>fails\<close>. A step whose statement raises has no effect of its own.
\<close>

definition execute ::
  "date \<Rightarrow> (step \<Rightarrow> bool) \<Rightarrow> step \<Rightarrow> store \<Rightarrow> error + store \<times> (string \<times> string \<times> log_value)" where
  "execute today fails st s = (if fails st then Inl (StoreError st) else step_effect today st s)"

fun run_steps ::
  "date \<Rightarrow> (step \<Rightarrow> bool) \<Rightarrow> step list \<Rightarrow> store \<times> build_log \<Rightarrow> error + store \<times> build_log" where
  "run_steps today fails [] acc = Inr acc"
| "run_steps today fails (st # sts) (s, lg) =
     (case execute today fails st s of
        Inl e \<Rightarrow> Inl e
      | Inr r \<Rightarrow> run_steps today fails sts (fst r, lg @ [snd r]))"

text \<open>The calls of \<open>main\<close> inside \<open>with engine.begin() as conn\<close>, in the order written.\<close>

definition main_steps :: "step list" where
  "main_steps =
     [DimCustomers, DimProducts, DimDate, DimPaymentMethod, FactSales,
      AggDailySales, AggProductSales, AggCustomerLifetime, ScdCustomers, ScdProducts]"

definition main_transaction :: "date \<Rightarrow> (step \<Rightarrow> bool) \<Rightarrow> store \<Rightarrow> error + store \<times> build_log" where
  "main_transaction today fails s = run_steps today fails main_steps (s, [])"

text \<open>
  \<open>engine.begin()\<close> commits when the block ends and rolls back when it raises: the
  committed store is the new one on success and the old one on an error, and the build
  log is returned only on success. The timestamp entry of the log and the report file,
  written after the block, are left out.
\<close>

definition main :: "date \<Rightarrow> (step \<Rightarrow> bool) \<Rightarrow> store \<Rightarrow> store \<times> (error + build_log)" where
  "main today fails s =
     (case main_transaction today fails s of
        Inl e \<Rightarrow> (s, Inl e)
      | Inr r \<Rightarrow> (fst r, Inr (snd r)))"

text \<open>The position of a step in a list of steps.\<close>

definition position :: "step \<Rightarrow> step list \<Rightarrow> nat" where
  "position st sts = length (takeWhile (\<lambda>x. x \<noteq> st) sts)"

definition runs_before :: "step \<Rightarrow> step \<Rightarrow> step list \<Rightarrow> bool" where
  "runs_before a b sts = (a \<in> set sts \<and> b \<in> set sts \<and> position a sts < position b sts)"

section \<open>Sequences of builds\<close>

text \<open>
  What can happen to the store over time: the source system replaces the production
  and staging data, a whole build runs (\<open>main\<close>, committed or rolled back), or one of
  the statements of the SCD dimension builder runs on its own.
\<close>

datatype build_op =
  ProductionChange "customer list" "product list" "transaction list"
    "transaction_item list" "transaction list"
  | RunMain date "step \<Rightarrow> bool"
  | RunBuildDimCustomers date
  | RunBuildDimProducts date
  | RunApplyScd date string

fun apply_op :: "build_op \<Rightarrow> store \<Rightarrow> store" where
  "apply_op (ProductionChange cs ps ts tis sts) s =
     s\<lparr>production_customers := cs, production_products := ps,
       production_transactions := ts, production_transaction_items := tis,
       staging_transactions := sts\<rparr>"
| "apply_op (RunMain today fails) s = fst (main today fails s)"
| "apply_op (RunBuildDimCustomers today) s = fst (build_dim_customers today s)"
| "apply_op (RunBuildDimProducts today) s = fst (build_dim_products today s)"
| "apply_op (RunApplyScd today dimension_name) s = fst (apply_scd_type2 today dimension_name s)"

fun run_ops :: "build_op list \<Rightarrow> store \<Rightarrow> store" where
  "run_ops [] s = s"
| "run_ops (op # ops) s = run_ops ops (apply_op op s)"

definition current_customer_rows :: "string \<Rightarrow> store \<Rightarrow> dim_customer list" where
  "current_customer_rows k s =
     filter (\<lambda>r. dc_customer_id r = k \<and> dc_is_current r) (dim_customers s)"

definition current_product_rows :: "string \<Rightarrow> store \<Rightarrow> dim_product list" where
  "current_product_rows k s =
     filter (\<lambda>r. dp_product_id r = k \<and> dp_is_current r) (dim_products s)"

definition one_current :: "store \<Rightarrow> bool" where
  "one_current s =
     (distinct (map dc_customer_id (filter dc_is_current (dim_customers s))) \<and>
      distinct (map dp_product_id (filter dp_is_current (dim_products s))))"

section \<open>Example data\<close>

text \<open>A small shop: one customer, one product, two transactions of one line item each.\<close>

definition alice :: customer where
  "alice = \<lparr>c_customer_id = ''CUST0001'',
            c_info = \<lparr>first_name = ''Alice'', last_name = ''Rao'', email = ''alice@example.com'',
                      phone = ''Unknown'', city = ''Pune'', state = ''MH'', country = ''India'',
                      age_group = ''25-35'', registration_date = ymd2ord 2023 5 17\<rparr>,
            c_is_active = True\<rparr>"

definition widget :: product where
  "widget = \<lparr>p_product_id = ''PROD0001'',
             p_info = \<lparr>product_name = ''Widget'', category = ''Tools'', sub_category = ''General'',
                       price = 15, cost = 7, brand = ''Acme''\<rparr>,
             p_is_active = True\<rparr>"

definition txn1 :: transaction where
  "txn1 = \<lparr>t_transaction_id = ''TXN0001'', t_customer_id = ''CUST0001'',
           t_transaction_date = ymd2ord 2024 1 1, t_payment_method = ''Net Banking'',
           t_total_amount = 30, t_shipping_address = ''1 Main Road''\<rparr>"

definition txn2 :: transaction where
  "txn2 = \<lparr>t_transaction_id = ''TXN0002'', t_customer_id = ''CUST0001'',
           t_transaction_date = ymd2ord 2024 1 3, t_payment_method = ''Cash on Delivery'',
           t_total_amount = 20, t_shipping_address = ''1 Main Road''\<rparr>"

definition item1 :: transaction_item where
  "item1 = \<lparr>ti_item_id = ''ITEM0001'', ti_transaction_id = ''TXN0001'',
            ti_product_id = ''PROD0001'', ti_quantity = 2, ti_unit_price = 15,
            ti_discount_percentage = 0, ti_line_total = 30\<rparr>"

definition item2 :: transaction_item where
  "item2 = \<lparr>ti_item_id = ''ITEM0002'', ti_transaction_id = ''TXN0002'',
            ti_product_id = ''PROD0001'', ti_quantity = 1, ti_unit_price = 20,
            ti_discount_percentage = 0, ti_line_total = 20\<rparr>"

definition shop :: store where
  "shop = empty_store\<lparr>production_customers := [alice], production_products := [widget],
            production_transactions := [txn1, txn2],
            production_transaction_items := [item1, item2],
            staging_transactions := [txn1, txn2]\<rparr>"

definition never_fails :: "step \<Rightarrow> bool" where
  "never_fails st = False"

section \<open>Stores that a second run can meet\<close>

text \<open>The tables that the fact loader reads, apart from the fact table itself.\<close>

definition same_sources :: "store \<Rightarrow> store \<Rightarrow> bool" where
  "same_sources s s' =
     (production_transactions s' = production_transactions s \<and>
      production_transaction_items s' = production_transaction_items s \<and>
      dim_customers s' = dim_customers s \<and>
      dim_products s' = dim_products s \<and>
      dim_date s' = dim_date s \<and>
      dim_payment_method s' = dim_payment_method s)"

text \<open>The shop after the four dimension steps of a build, before any fact is loaded.\<close>

definition dims_only :: store where
  "dims_only =
     (case run_steps (ymd2ord 2024 2 1) never_fails
             [DimCustomers, DimProducts, DimDate, DimPaymentMethod] (shop, []) of
        Inr r \<Rightarrow> fst r
      | Inl e \<Rightarrow> shop)"

text \<open>The shop with a second line item that carries the item id of the first one but
  belongs to the other transaction.\<close>

definition item1_again :: transaction_item where
  "item1_again = item1\<lparr>ti_transaction_id := ''TXN0002''\<rparr>"

definition twins :: store where
  "twins = shop\<lparr>production_transaction_items := [item1, item1_again]\<rparr>"

text \<open>The shop with both of its line items loaded, when that second line item arrives.\<close>

definition reloaded :: store where
  "reloaded = (fst (build_fact_sales dims_only))
                \<lparr>production_transaction_items := [item1, item2, item1_again]\<rparr>"

text \<open>The shop after its product was put into the dimension and then deactivated by
  the source system.\<close>

definition discontinued :: store where
  "discontinued = dims_only\<lparr>production_products := [widget\<lparr>p_is_active := False\<rparr>]\<rparr>"

text \<open>The shop after its customer was put into the dimension and then deactivated.\<close>

definition lapsed :: store where
  "lapsed = (fst (build_dim_customers (ymd2ord 2024 1 15) shop))
              \<lparr>production_customers := [alice\<lparr>c_is_active := False\<rparr>]\<rparr>"

text \<open>The shop before its first sale.\<close>

definition no_sales :: store where
  "no_sales = shop\<lparr>production_transactions := [], production_transaction_items := [],
                   staging_transactions := []\<rparr>"

definition fact_sales_fails :: "step \<Rightarrow> bool" where
  "fact_sales_fails st = (st = FactSales)"

text \<open>Every fact row has exactly one row of the date dimension under its date key.\<close>

definition date_key_ok :: "store \<Rightarrow> bool" where
  "date_key_ok s =
     list_all (\<lambda>f. length (filter (\<lambda>dd. fs_date_sk f = dd_date_sk dd) (dim_date s)) = 1)
       (fact_sales s)"

text \<open>The shop with its dimensions built and its two line items loaded.\<close>

definition loaded :: store where
  "loaded = fst (build_fact_sales dims_only)"

text \<open>The section and the key under which a step of \<open>main\<close> writes to the build log.\<close>

definition log_key :: "step \<Rightarrow> string \<times> string" where
  "log_key st =
     (case st of
        DimCustomers \<Rightarrow> (''dimensions_built'', ''dim_customers'')
      | DimProducts \<Rightarrow> (''dimensions_built'', ''dim_products'')
      | DimDate \<Rightarrow> (''dimensions_built'', ''dim_date'')
      | DimPaymentMethod \<Rightarrow> (''dimensions_built'', ''dim_payment_method'')
      | FactSales \<Rightarrow> (''fact_tables_built'', ''fact_sales'')
      | AggDailySales \<Rightarrow> (''aggregates_built'', ''agg_daily_sales'')
      | AggProductSales \<Rightarrow> (''aggregates_built'', ''agg_product_sales'')
      | AggCustomerLifetime \<Rightarrow> (''aggregates_built'', ''agg_customer_lifetime'')
      | ScdCustomers \<Rightarrow> (''scd_updates'', ''dim_customers'')
      | ScdProducts \<Rightarrow> (''scd_updates'', ''dim_products''))"

text \<open>
  A history of the shop: the first data arrives and a build runs, the build runs
  again, the customer is deactivated and a third build runs, the customer is
  activated again and the dimension inserts and the retirement run once more.
\<close>

definition history :: "build_op list" where
  "history =
     [ProductionChange [alice] [widget] [txn1, txn2] [item1, item2] [txn1, txn2],
      RunMain (ymd2ord 2024 2 1) never_fails,
      RunMain (ymd2ord 2024 2 2) never_fails,
      ProductionChange [alice\<lparr>c_is_active := False\<rparr>] [widget] [txn1, txn2] [item1, item2]
        [txn1, txn2],
      RunMain (ymd2ord 2024 3 1) never_fails,
      ProductionChange [alice] [widget] [txn1, txn2] [item1, item2] [txn1, txn2],
      RunBuildDimCustomers (ymd2ord 2024 3 2),
      RunBuildDimProducts (ymd2ord 2024 3 2),
      RunApplyScd (ymd2ord 2024 3 2) ''dim_customers'',
      RunMain (ymd2ord 2024 3 3) fact_sales_fails]"

text \<open>
  The date keys are in order: no two rows of the date dimension share a key, every key
  was drawn from the sequence, and every fact row carries the key of a date row.
\<close>

definition date_keys_ok :: "store \<Rightarrow> bool" where
  "date_keys_ok s =
     (distinct (map dd_date_sk (dim_date s)) \<and>
      list_all (\<lambda>d. dd_date_sk d \<le> seq_date_sk s) (dim_date s) \<and>
      list_all (\<lambda>f. list_ex (\<lambda>d. dd_date_sk d = fs_date_sk f) (dim_date s)) (fact_sales s))"

section \<open>Verified properties\<close>

subsection \<open>Helper lemmas\<close>


subsection \<open>Date dimension generator\<close>











subsection \<open>Rows of a conditional insert\<close>

lemma insert_on_conflict_rows:
  "r \<in> set (fst (insert_on_conflict cf mk cs (tbl, sq, cnt))) \<Longrightarrow>
   r \<in> set tbl \<or> (\<exists>sk. \<exists>c \<in> set cs. r = mk sk c)"
proof (induction cs arbitrary: tbl sq cnt)
  case Nil
  then show ?case by simp
next
  case (Cons c cs)
  show ?case
  proof (cases "list_ex (\<lambda>r'. cf r' (mk (Suc sq) c)) tbl")
    case True
    with Cons.prems have "r \<in> set (fst (insert_on_conflict cf mk cs (tbl, sq, cnt)))"
      by simp
    from Cons.IH [OF this] show ?thesis by auto
  next
    case False
    with Cons.prems
    have "r \<in> set (fst (insert_on_conflict cf mk cs (tbl @ [mk (Suc sq) c], Suc sq, Suc cnt)))"
      by simp
    from Cons.IH [OF this] show ?thesis by auto
  qed
qed

lemma insert_on_conflict_keeps:
  "set tbl \<subseteq> set (fst (insert_on_conflict cf mk cs (tbl, sq, cnt)))"
proof (induction cs arbitrary: tbl sq cnt)
  case Nil
  then show ?case by simp
next
  case (Cons c cs)
  show ?case
  proof (cases "list_ex (\<lambda>r'. cf r' (mk (Suc sq) c)) tbl")
    case True
    then show ?thesis using Cons.IH [of tbl sq cnt] by simp
  next
    case False
    then show ?thesis
      using Cons.IH [of "tbl @ [mk (Suc sq) c]" "Suc sq" "Suc cnt"] by auto
  qed
qed

lemma insert_on_conflict_covers:
  assumes key: "\<And>r sk c. cf r (mk sk c) = (kr r = kc c)" and mk: "\<And>sk c. kr (mk sk c) = kc c"
  shows "c \<in> set cs \<Longrightarrow>
         \<exists>r \<in> set (fst (insert_on_conflict cf mk cs (tbl, sq, cnt))). kr r = kc c"
proof (induction cs arbitrary: tbl sq cnt)
  case Nil
  then show ?case by simp
next
  case (Cons c' cs)
  show ?case
  proof (cases "list_ex (\<lambda>r'. cf r' (mk (Suc sq) c')) tbl")
    case True
    note hit = this
    show ?thesis
    proof (cases "c = c'")
      case True
      from hit obtain r where "r \<in> set tbl" "kr r = kc c'"
        by (auto simp add: list_ex_iff key)
      with True insert_on_conflict_keeps [of tbl cf mk "c' # cs" sq cnt]
      show ?thesis by auto
    next
      case False
      with Cons.prems have "c \<in> set cs" by simp
      from Cons.IH [OF this, of tbl sq cnt] hit show ?thesis by simp
    qed
  next
    case False
    note miss = this
    show ?thesis
    proof (cases "c = c'")
      case True
      have "mk (Suc sq) c' \<in> set (tbl @ [mk (Suc sq) c'])" by simp
      with insert_on_conflict_keeps [of "tbl @ [mk (Suc sq) c']" cf mk cs "Suc sq" "Suc cnt"]
      have "mk (Suc sq) c' \<in> set (fst (insert_on_conflict cf mk (c' # cs) (tbl, sq, cnt)))"
        using miss by auto
      with True mk show ?thesis by blast
    next
      case False
      with Cons.prems have "c \<in> set cs" by simp
      from Cons.IH [OF this, of "tbl @ [mk (Suc sq) c']" "Suc sq" "Suc cnt"] miss
      show ?thesis by simp
    qed
  qed
qed

subsection \<open>Reference dimension builder\<close>

lemma payment_examples:
  "payment_method_of ''Net Banking'' =
     \<lparr>payment_method_id = ''net_banking'', payment_method_name = ''Net Banking'',
      pm_category = ''Digital'', pm_is_active = True\<rparr> \<and>
   payment_method_of ''Cash on Delivery'' =
     \<lparr>payment_method_id = ''cash_on_delivery'', payment_method_name = ''Cash on Delivery'',
      pm_category = ''Cash'', pm_is_active = True\<rparr>"
  by code_simp

lemma lower_alphabet:
  "map lower_char ''ABCDEFGHIJKLMNOPQRSTUVWXYZ'' = ''abcdefghijklmnopqrstuvwxyz''"
  by code_simp

text \<open>
  Claim C8. The payment-method key of a label is the label with every space replaced by
  an underscore and then lower-cased (the capital letters A to Z become a to z). The
  category is Card for "Credit Card" and "Debit Card", Digital for "UPI" and
  "Net Banking", Cash for "Cash on Delivery" and Other for every other label. So
  "Net Banking" gives the key "net_banking" and the category Digital, and
  "Cash on Delivery" gives "cash_on_delivery" and Cash. Every row that the builder adds
  to the dimension is derived in this way from a label of the transactions it reads,
  and after the build every such label has a row under its key.
\<close>

theorem payment_method_derivation:
  "payment_method_key label =
     map lower_char (map (\<lambda>c. if c = CHR '' '' then CHR ''_'' else c) label) \<and>
   map lower_char ''ABCDEFGHIJKLMNOPQRSTUVWXYZ'' = ''abcdefghijklmnopqrstuvwxyz'' \<and>
   payment_method_category label =
     (if label \<in> {''Credit Card'', ''Debit Card''} then ''Card''
      else if label \<in> {''UPI'', ''Net Banking''} then ''Digital''
      else if label = ''Cash on Delivery'' then ''Cash'' else ''Other'') \<and>
   payment_method_of ''Net Banking'' =
     \<lparr>payment_method_id = ''net_banking'', payment_method_name = ''Net Banking'',
      pm_category = ''Digital'', pm_is_active = True\<rparr> \<and>
   payment_method_of ''Cash on Delivery'' =
     \<lparr>payment_method_id = ''cash_on_delivery'', payment_method_name = ''Cash on Delivery'',
      pm_category = ''Cash'', pm_is_active = True\<rparr> \<and>
   (\<forall>r \<in> set (dim_payment_method (fst (build_dim_payment_method s))).
      r \<in> set (dim_payment_method s) \<or>
      (\<exists>t \<in> set (staging_transactions s). dpm_row r = payment_method_of (t_payment_method t))) \<and>
   (\<forall>t \<in> set (staging_transactions s).
      \<exists>r \<in> set (dim_payment_method (fst (build_dim_payment_method s))).
        payment_method_id (dpm_row r) = payment_method_key (t_payment_method t))"
proof -
  have key: "payment_method_key label =
     map lower_char (map (\<lambda>c. if c = CHR '' '' then CHR ''_'' else c) label)"
    by (simp add: payment_method_key_def LOWER_def REPLACE_def)
  have cat: "payment_method_category label =
     (if label \<in> {''Credit Card'', ''Debit Card''} then ''Card''
      else if label \<in> {''UPI'', ''Net Banking''} then ''Digital''
      else if label = ''Cash on Delivery'' then ''Cash'' else ''Other'')"
    by (simp add: payment_method_category_def)
  have new: "\<forall>r \<in> set (dim_payment_method (fst (build_dim_payment_method s))).
      r \<in> set (dim_payment_method s) \<or>
      (\<exists>t \<in> set (staging_transactions s). dpm_row r = payment_method_of (t_payment_method t))"
  proof
    fix r assume "r \<in> set (dim_payment_method (fst (build_dim_payment_method s)))"
    then have "r \<in> set (fst (insert_on_conflict dim_payment_method_conflict
                  (\<lambda>sk r. \<lparr>dpm_payment_method_sk = sk, dpm_row = r\<rparr>)
                  (payment_method_select s)
                  (dim_payment_method s, seq_payment_method_sk s, 0)))"
      by (simp add: build_dim_payment_method_def Let_def)
    from insert_on_conflict_rows [OF this]
    show "r \<in> set (dim_payment_method s) \<or>
      (\<exists>t \<in> set (staging_transactions s). dpm_row r = payment_method_of (t_payment_method t))"
      by (auto simp add: payment_method_select_def)
  qed
  have all_labels: "\<forall>t \<in> set (staging_transactions s).
      \<exists>r \<in> set (dim_payment_method (fst (build_dim_payment_method s))).
        payment_method_id (dpm_row r) = payment_method_key (t_payment_method t)"
  proof
    fix t assume t: "t \<in> set (staging_transactions s)"
    then have c: "payment_method_of (t_payment_method t) \<in> set (payment_method_select s)"
      by (simp add: payment_method_select_def)
    have "\<exists>r \<in> set (fst (insert_on_conflict dim_payment_method_conflict
                  (\<lambda>sk r. \<lparr>dpm_payment_method_sk = sk, dpm_row = r\<rparr>)
                  (payment_method_select s)
                  (dim_payment_method s, seq_payment_method_sk s, 0))).
            payment_method_id (dpm_row r) = payment_method_id (payment_method_of (t_payment_method t))"
      by (rule insert_on_conflict_covers [OF _ _ c])
         (simp_all add: dim_payment_method_conflict_def)
    then show "\<exists>r \<in> set (dim_payment_method (fst (build_dim_payment_method s))).
        payment_method_id (dpm_row r) = payment_method_key (t_payment_method t)"
      by (simp add: build_dim_payment_method_def Let_def payment_method_of_def)
  qed
  show ?thesis
    using key cat lower_alphabet payment_examples new all_labels by (simp only: simp_thms)
qed

theorem payment_method_derivation_witness:
  "txn1 \<in> set (staging_transactions shop) \<and>
   \<lparr>dpm_payment_method_sk = 1, dpm_row = payment_method_of ''Net Banking''\<rparr>
     \<in> set (dim_payment_method (fst (build_dim_payment_method shop))) \<and>
   (\<exists>r \<in> set (dim_payment_method (fst (build_dim_payment_method shop))).
      payment_method_id (dpm_row r) = payment_method_key (t_payment_method txn1)) \<and>
   payment_method_key ''Debit Card'' = ''debit_card'' \<and>
   payment_method_category ''Debit Card'' = ''Card'' \<and>
   payment_method_category ''Gift Voucher'' = ''Other''"
proof -
  have a: "txn1 \<in> set (staging_transactions shop)"
    by (simp add: shop_def)
  have b: "\<lparr>dpm_payment_method_sk = 1, dpm_row = payment_method_of ''Net Banking''\<rparr>
     \<in> set (dim_payment_method (fst (build_dim_payment_method shop)))"
    by code_simp
  have c: "payment_method_key ''Debit Card'' = ''debit_card'' \<and>
     payment_method_category ''Debit Card'' = ''Card'' \<and>
     payment_method_category ''Gift Voucher'' = ''Other''"
    by code_simp
  show ?thesis
    using payment_method_derivation [of "''Debit Card''" shop] a b c by blast
qed

subsection \<open>Fact loader\<close>

lemma join_item_fst: "x \<in> set (join_item s ti) \<Longrightarrow> fst x = ti"
  by (auto simp add: join_item_def)

lemma fact_sales_select_item:
  "x \<in> set (fact_sales_select s) \<Longrightarrow>
   fst x \<in> set (production_transaction_items s) \<and> \<not> already_loaded s (fst x) \<and>
   x \<in> set (join_item s (fst x))"
  by (auto simp add: fact_sales_select_def dest: join_item_fst)

lemma join_item_current:
  "(ti', t, dc, dp, dd, dpm) \<in> set (join_item s ti) \<Longrightarrow>
   dc \<in> set (dim_customers s) \<and> dc_customer_id dc = t_customer_id t \<and> dc_is_current dc \<and>
   dp \<in> set (dim_products s) \<and> dp_product_id dp = ti_product_id ti \<and> dp_is_current dp"
  by (auto simp add: join_item_def)

lemma select_needs_current_product:
  assumes "current_product_rows k s = []" and "x \<in> set (fact_sales_select s)"
  shows "ti_product_id (fst x) \<noteq> k"
proof
  assume k: "ti_product_id (fst x) = k"
  obtain ti t dc dp dd dpm where x: "x = (ti, t, dc, dp, dd, dpm)"
    by (cases x) auto
  from fact_sales_select_item [OF assms(2)] x
  have "(ti, t, dc, dp, dd, dpm) \<in> set (join_item s ti)" by simp
  from join_item_current [OF this] k x
  have "dp \<in> set (current_product_rows k s)"
    by (simp add: current_product_rows_def)
  with assms(1) show False by simp
qed

lemma select_needs_current_customer:
  assumes "current_customer_rows k s = []" and "x \<in> set (fact_sales_select s)"
  shows "t_customer_id (fst (snd x)) \<noteq> k"
proof
  assume k: "t_customer_id (fst (snd x)) = k"
  obtain ti t dc dp dd dpm where x: "x = (ti, t, dc, dp, dd, dpm)"
    by (cases x) auto
  from fact_sales_select_item [OF assms(2)] x
  have "(ti, t, dc, dp, dd, dpm) \<in> set (join_item s ti)" by simp
  from join_item_current [OF this] k x
  have "dc \<in> set (current_customer_rows k s)"
    by (simp add: current_customer_rows_def)
  with assms(1) show False by simp
qed

lemma scd_products_table:
  "dim_products (fst (apply_scd_type2 today ''dim_products'' s)) =
     map (\<lambda>r. if inactive_product s r
              then r\<lparr>dp_is_current := False, dp_end_date := Some (today - 1)\<rparr> else r)
       (dim_products s)"
  by (simp add: apply_scd_type2_def)

lemma scd_customers_table:
  "dim_customers (fst (apply_scd_type2 today ''dim_customers'' s)) =
     map (\<lambda>r. if inactive_customer s r
              then r\<lparr>dc_is_current := False, dc_end_date := Some (today - 1)\<rparr> else r)
       (dim_customers s)"
  by (simp add: apply_scd_type2_def)

lemma inactive_product_iff:
  "inactive_product s r =
     (dp_is_current r \<and>
      (\<exists>p \<in> set (production_products s). p_product_id p = dp_product_id r \<and> \<not> p_is_active p))"
  by (auto simp add: inactive_product_def intro: rev_image_eqI)

lemma inactive_customer_iff:
  "inactive_customer s r =
     (dc_is_current r \<and>
      (\<exists>c \<in> set (production_customers s). c_customer_id c = dc_customer_id r \<and> \<not> c_is_active c))"
  by (auto simp add: inactive_customer_def intro: rev_image_eqI)

lemma retired_product_not_current:
  assumes "p \<in> set (production_products s)" and "\<not> p_is_active p"
  shows "current_product_rows (p_product_id p) (fst (apply_scd_type2 today ''dim_products'' s)) = []"
  using assms
  by (auto simp add: current_product_rows_def scd_products_table filter_empty_conv
        inactive_product_iff)

lemma retired_customer_not_current:
  assumes "c \<in> set (production_customers s)" and "\<not> c_is_active c"
  shows "current_customer_rows (c_customer_id c) (fst (apply_scd_type2 today ''dim_customers'' s)) = []"
  using assms
  by (auto simp add: current_customer_rows_def scd_customers_table filter_empty_conv
        inactive_customer_iff)

lemma join_item_same_sources: "same_sources s s' \<Longrightarrow> join_item s' ti = join_item s ti"
  by (simp add: join_item_def same_sources_def)

lemma fact_row_item_id: "fs_item_id (fact_row x) = ti_item_id (fst x)"
  by (cases x) simp

lemma loaded_after_run:
  assumes "ti \<in> set (production_transaction_items s)" and "join_item s ti \<noteq> []"
  shows "already_loaded (fst (build_fact_sales s)) ti"
proof (cases "already_loaded s ti")
  case True
  then show ?thesis
    by (auto simp add: already_loaded_def build_fact_sales_def Let_def list_ex_iff)
next
  case False
  from assms(2) have "hd (join_item s ti) \<in> set (join_item s ti)"
    by simp
  then obtain x where x: "x \<in> set (join_item s ti)" ..
  with assms(1) False have "x \<in> set (fact_sales_select s)"
    by (auto simp add: fact_sales_select_def)
  moreover have "fs_item_id (fact_row x) = ti_item_id ti"
    using join_item_fst [OF x] by (simp add: fact_row_item_id)
  ultimately show ?thesis
    by (auto simp add: already_loaded_def build_fact_sales_def Let_def list_ex_iff)
qed

lemma second_select_empty:
  assumes src: "same_sources (fst (build_fact_sales s)) s2"
    and facts: "fact_sales s2 = fact_sales (fst (build_fact_sales s))"
  shows "fact_sales_select s2 = []"
proof -
  have src0: "same_sources s s2"
    using src by (simp add: same_sources_def build_fact_sales_def Let_def)
  have "join_item s2 ti = []"
    if ti: "ti \<in> set (production_transaction_items s2)" and new: "\<not> already_loaded s2 ti" for ti
  proof (rule ccontr)
    assume "join_item s2 ti \<noteq> []"
    then have "join_item s ti \<noteq> []"
      using join_item_same_sources [OF src0] by simp
    moreover have "ti \<in> set (production_transaction_items s)"
      using ti src0 by (simp add: same_sources_def)
    ultimately have "already_loaded (fst (build_fact_sales s)) ti"
      by (rule loaded_after_run [rotated])
    then have "already_loaded s2 ti"
      using facts by (simp add: already_loaded_def)
    with new show False by simp
  qed
  then show ?thesis
    by (simp add: fact_sales_select_def)
qed

text \<open>
  Claim C5. After a run of the fact loader, a second run on a store whose production
  transactions and line items, dimension tables and fact table are those the first run
  left appends no row: its row count is 0 and it leaves the fact table, and the whole
  store, exactly as they were.
\<close>

theorem fact_load_idempotent:
  assumes "same_sources (fst (build_fact_sales s)) s2"
    and "fact_sales s2 = fact_sales (fst (build_fact_sales s))"
  shows "snd (build_fact_sales s2) = 0 \<and>
         fact_sales (fst (build_fact_sales s2)) = fact_sales (fst (build_fact_sales s)) \<and>
         fst (build_fact_sales s2) = s2"
  using second_select_empty [OF assms] assms(2)
  by (simp add: build_fact_sales_def)

theorem fact_load_idempotent_witness:
  "same_sources (fst (build_fact_sales dims_only)) (fst (build_fact_sales dims_only)) \<and>
   snd (build_fact_sales dims_only) = 2 \<and>
   snd (build_fact_sales (fst (build_fact_sales dims_only))) = 0 \<and>
   fact_sales (fst (build_fact_sales (fst (build_fact_sales dims_only)))) =
     fact_sales (fst (build_fact_sales dims_only))"
proof -
  have h: "same_sources (fst (build_fact_sales dims_only)) (fst (build_fact_sales dims_only))"
    by (simp add: same_sources_def)
  have n: "snd (build_fact_sales dims_only) = 2"
    by code_simp
  show ?thesis
    using fact_load_idempotent [OF h refl] h n by simp
qed

text \<open>
  Claim C10, as amended. The already-loaded check of the fact loader reads the item id
  alone. A production line item is left out of the load whenever a row that is in the
  fact table when the load starts carries its item id, whatever the transaction of that
  row; so every row in the fact table after a load was either there before or carries
  an item id that no earlier row carried.
\<close>

theorem item_id_check:
  "(\<forall>ti. (\<exists>fs \<in> set (fact_sales s). fs_item_id fs = ti_item_id ti) \<longrightarrow>
         ti \<notin> fst ` set (fact_sales_select s)) \<and>
   (\<forall>f \<in> set (fact_sales (fst (build_fact_sales s))).
      f \<in> set (fact_sales s) \<or> fs_item_id f \<notin> fs_item_id ` set (fact_sales s))"
proof -
  have a: "\<forall>ti. (\<exists>fs \<in> set (fact_sales s). fs_item_id fs = ti_item_id ti) \<longrightarrow>
         ti \<notin> fst ` set (fact_sales_select s)"
  proof (intro allI impI notI)
    fix ti assume old: "\<exists>fs \<in> set (fact_sales s). fs_item_id fs = ti_item_id ti"
      and "ti \<in> fst ` set (fact_sales_select s)"
    then obtain x where "x \<in> set (fact_sales_select s)" "fst x = ti" by auto
    then have "\<not> already_loaded s ti"
      using fact_sales_select_item [of x s] by simp
    with old show False
      by (simp add: already_loaded_def list_ex_iff)
  qed
  have b: "\<forall>f \<in> set (fact_sales (fst (build_fact_sales s))).
      f \<in> set (fact_sales s) \<or> fs_item_id f \<notin> fs_item_id ` set (fact_sales s)"
  proof
    fix f assume "f \<in> set (fact_sales (fst (build_fact_sales s)))"
    then have "f \<in> set (fact_sales s) \<or> (\<exists>x \<in> set (fact_sales_select s). f = fact_row x)"
      by (auto simp add: build_fact_sales_def)
    then show "f \<in> set (fact_sales s) \<or> fs_item_id f \<notin> fs_item_id ` set (fact_sales s)"
    proof
      assume "f \<in> set (fact_sales s)" then show ?thesis ..
    next
      assume "\<exists>x \<in> set (fact_sales_select s). f = fact_row x"
      then obtain x where x: "x \<in> set (fact_sales_select s)" and f: "f = fact_row x" by auto
      have "\<not> already_loaded s (fst x)"
        using fact_sales_select_item [OF x] by simp
      then have "fs_item_id f \<notin> fs_item_id ` set (fact_sales s)"
        using f by (auto simp add: already_loaded_def list_ex_iff fact_row_item_id)
      then show ?thesis ..
    qed
  qed
  show ?thesis using a b by (simp only: simp_thms)
qed

theorem item_id_check_witness:
  "map (\<lambda>f. (fs_item_id f, fs_transaction_id f)) (fact_sales reloaded) =
     [(''ITEM0001'', ''TXN0001''), (''ITEM0002'', ''TXN0002'')] \<and>
   item1_again \<in> set (production_transaction_items reloaded) \<and>
   ti_item_id item1_again = ''ITEM0001'' \<and> ti_transaction_id item1_again = ''TXN0002'' \<and>
   join_item reloaded item1_again \<noteq> [] \<and>
   item1_again \<notin> fst ` set (fact_sales_select reloaded)"
proof -
  have a: "map (\<lambda>f. (fs_item_id f, fs_transaction_id f)) (fact_sales reloaded) =
     [(''ITEM0001'', ''TXN0001''), (''ITEM0002'', ''TXN0002'')]"
    by code_simp
  have b: "item1_again \<in> set (production_transaction_items reloaded) \<and>
     ti_item_id item1_again = ''ITEM0001'' \<and> ti_transaction_id item1_again = ''TXN0002''"
    by code_simp
  have c: "join_item reloaded item1_again \<noteq> []"
    by code_simp
  have d: "\<exists>fs \<in> set (fact_sales reloaded). fs_item_id fs = ti_item_id item1_again"
    by code_simp
  show ?thesis
    using item_id_check [of reloaded] a b c d by blast
qed

text \<open>
  Against claim C10 as stated: two line items of different transactions that share an
  item id and are both new to the fact table are both loaded by one build.
\<close>

theorem item_id_check_counterexample:
  "map (\<lambda>f. (fs_item_id f, fs_transaction_id f))
     (fact_sales (fst (main (ymd2ord 2024 2 1) never_fails twins))) =
   [(''ITEM0001'', ''TXN0001''), (''ITEM0001'', ''TXN0002'')]"
  by code_simp

subsection \<open>SCD retirement\<close>

text \<open>
  Claim C6. The retirement step keeps every dimension row in its place and changes
  exactly the rows that are current and whose business key has an inactive production
  row: it sets \<open>is_current\<close> to false and \<open>end_date\<close> to the day before today. After it no
  current row is left for such a key. A fact load on any store that has no current
  dimension row for a product key, or for a customer key, selects no line item of that
  product, or of that customer, and the rows it appends are those of the line items it
  selects.
\<close>

theorem retirement_then_fact_load:
  assumes sp: "sp = fst (apply_scd_type2 today ''dim_products'' s)"
    and sc: "sc = fst (apply_scd_type2 today ''dim_customers'' s)"
  shows
  "length (dim_products sp) = length (dim_products s) \<and>
   (\<forall>i < length (dim_products s).
      dim_products sp ! i =
        (if dp_is_current (dim_products s ! i) \<and>
            (\<exists>p \<in> set (production_products s).
               p_product_id p = dp_product_id (dim_products s ! i) \<and> \<not> p_is_active p)
         then (dim_products s ! i)\<lparr>dp_is_current := False, dp_end_date := Some (today - 1)\<rparr>
         else dim_products s ! i)) \<and>
   length (dim_customers sc) = length (dim_customers s) \<and>
   (\<forall>i < length (dim_customers s).
      dim_customers sc ! i =
        (if dc_is_current (dim_customers s ! i) \<and>
            (\<exists>c \<in> set (production_customers s).
               c_customer_id c = dc_customer_id (dim_customers s ! i) \<and> \<not> c_is_active c)
         then (dim_customers s ! i)\<lparr>dc_is_current := False, dc_end_date := Some (today - 1)\<rparr>
         else dim_customers s ! i)) \<and>
   (\<forall>p \<in> set (production_products s). \<not> p_is_active p \<longrightarrow>
      current_product_rows (p_product_id p) sp = []) \<and>
   (\<forall>c \<in> set (production_customers s). \<not> c_is_active c \<longrightarrow>
      current_customer_rows (c_customer_id c) sc = []) \<and>
   (\<forall>s2 k. current_product_rows k s2 = [] \<longrightarrow>
      (\<forall>x \<in> set (fact_sales_select s2). ti_product_id (fst x) \<noteq> k)) \<and>
   (\<forall>s2 k. current_customer_rows k s2 = [] \<longrightarrow>
      (\<forall>x \<in> set (fact_sales_select s2). t_customer_id (fst (snd x)) \<noteq> k)) \<and>
   (\<forall>s2. fact_sales (fst (build_fact_sales s2)) =
           fact_sales s2 @ map fact_row (fact_sales_select s2))"
proof -
  have p1: "length (dim_products sp) = length (dim_products s)"
    by (simp add: sp scd_products_table)
  have p2: "\<forall>i < length (dim_products s).
      dim_products sp ! i =
        (if dp_is_current (dim_products s ! i) \<and>
            (\<exists>p \<in> set (production_products s).
               p_product_id p = dp_product_id (dim_products s ! i) \<and> \<not> p_is_active p)
         then (dim_products s ! i)\<lparr>dp_is_current := False, dp_end_date := Some (today - 1)\<rparr>
         else dim_products s ! i)"
    by (simp add: sp scd_products_table inactive_product_iff)
  have c1: "length (dim_customers sc) = length (dim_customers s)"
    by (simp add: sc scd_customers_table)
  have c2: "\<forall>i < length (dim_customers s).
      dim_customers sc ! i =
        (if dc_is_current (dim_customers s ! i) \<and>
            (\<exists>c \<in> set (production_customers s).
               c_customer_id c = dc_customer_id (dim_customers s ! i) \<and> \<not> c_is_active c)
         then (dim_customers s ! i)\<lparr>dc_is_current := False, dc_end_date := Some (today - 1)\<rparr>
         else dim_customers s ! i)"
    by (simp add: sc scd_customers_table inactive_customer_iff)
  have p3: "\<forall>p \<in> set (production_products s). \<not> p_is_active p \<longrightarrow>
      current_product_rows (p_product_id p) sp = []"
    using retired_product_not_current [of _ s today] by (simp add: sp)
  have c3: "\<forall>c \<in> set (production_customers s). \<not> c_is_active c \<longrightarrow>
      current_customer_rows (c_customer_id c) sc = []"
    using retired_customer_not_current [of _ s today] by (simp add: sc)
  have p4: "\<forall>s2 k. current_product_rows k s2 = [] \<longrightarrow>
      (\<forall>x \<in> set (fact_sales_select s2). ti_product_id (fst x) \<noteq> k)"
    using select_needs_current_product by blast
  have c4: "\<forall>s2 k. current_customer_rows k s2 = [] \<longrightarrow>
      (\<forall>x \<in> set (fact_sales_select s2). t_customer_id (fst (snd x)) \<noteq> k)"
    using select_needs_current_customer by blast
  have f: "\<forall>s2. fact_sales (fst (build_fact_sales s2)) =
           fact_sales s2 @ map fact_row (fact_sales_select s2)"
    by (simp add: build_fact_sales_def)
  show ?thesis using p1 p2 c1 c2 p3 c3 p4 c4 f by (simp only: simp_thms)
qed

theorem retirement_then_fact_load_witness:
  "widget\<lparr>p_is_active := False\<rparr> \<in> set (production_products discontinued) \<and>
   map (\<lambda>r. (dp_product_id r, dp_is_current r, dp_end_date r)) (dim_products discontinued) =
     [(''PROD0001'', True, None)] \<and>
   map (\<lambda>r. (dp_product_id r, dp_is_current r, dp_end_date r))
     (dim_products (fst (apply_scd_type2 (ymd2ord 2024 2 1) ''dim_products'' discontinued))) =
     [(''PROD0001'', False, Some (ymd2ord 2024 1 31))] \<and>
   map (\<lambda>x. ti_item_id (fst x)) (fact_sales_select discontinued) = [''ITEM0001'', ''ITEM0002''] \<and>
   current_product_rows ''PROD0001''
     (fst (apply_scd_type2 (ymd2ord 2024 2 1) ''dim_products'' discontinued)) = [] \<and>
   fact_sales_select
     (fst (apply_scd_type2 (ymd2ord 2024 2 1) ''dim_products'' discontinued)) = []"
proof -
  have a: "widget\<lparr>p_is_active := False\<rparr> \<in> set (production_products discontinued)"
    by code_simp
  have b: "map (\<lambda>r. (dp_product_id r, dp_is_current r, dp_end_date r)) (dim_products discontinued) =
     [(''PROD0001'', True, None)]"
    by code_simp
  have c: "map (\<lambda>r. (dp_product_id r, dp_is_current r, dp_end_date r))
     (dim_products (fst (apply_scd_type2 (ymd2ord 2024 2 1) ''dim_products'' discontinued))) =
     [(''PROD0001'', False, Some (ymd2ord 2024 1 31))]"
    by code_simp
  have d: "map (\<lambda>x. ti_item_id (fst x)) (fact_sales_select discontinued) =
     [''ITEM0001'', ''ITEM0002'']"
    by code_simp
  have e: "\<not> p_is_active (widget\<lparr>p_is_active := False\<rparr>) \<and>
     p_product_id (widget\<lparr>p_is_active := False\<rparr>) = ''PROD0001''"
    by (simp add: widget_def)
  have f: "current_product_rows ''PROD0001''
     (fst (apply_scd_type2 (ymd2ord 2024 2 1) ''dim_products'' discontinued)) = []"
    using retirement_then_fact_load [OF refl refl, of "ymd2ord 2024 2 1" discontinued] a e
    by metis
  have g: "fact_sales_select
     (fst (apply_scd_type2 (ymd2ord 2024 2 1) ''dim_products'' discontinued)) = []"
    by code_simp
  show ?thesis using a b c d f g by (simp only: simp_thms)
qed

subsection \<open>Aggregate builder\<close>

lemma count_distinct_card: "COUNT_DISTINCT xs = card (set xs)"
  by (simp add: COUNT_DISTINCT_def length_remdups_card_conv)

lemma group_keys_distinct: "distinct (group_keys key rows)"
  by (simp add: group_keys_def)

lemma group_rows_nonempty: "k \<in> set (group_keys key rows) \<Longrightarrow> group_rows key rows k \<noteq> []"
  by (auto simp add: group_keys_def group_rows_def filter_empty_conv)

lemma insert_on_conflict_new_row:
  assumes key: "\<And>r sk c. cf r (mk sk c) = (kr r = kc c)" and mk: "\<And>sk c. kr (mk sk c) = kc c"
    and dist: "distinct (map kc cs)" and c: "c \<in> set cs"
    and absent: "\<forall>r \<in> set tbl. kr r \<noteq> kc c"
  shows "\<exists>sk. mk sk c \<in> set (fst (insert_on_conflict cf mk cs (tbl, sq, cnt)))"
proof -
  from insert_on_conflict_covers [of cf mk kr kc, OF key mk c]
  obtain r where r: "r \<in> set (fst (insert_on_conflict cf mk cs (tbl, sq, cnt)))"
    and k: "kr r = kc c" by blast
  from insert_on_conflict_rows [OF r] absent k
  obtain sk c' where c': "c' \<in> set cs" and rc: "r = mk sk c'" by auto
  from k rc mk have "kc c' = kc c" by simp
  with dist c c' have "c' = c"
    by (meson distinct_map inj_on_contraD)
  with r rc show ?thesis by blast
qed

lemma agg_product_keys:
  "map aps_product_sk (agg_product_sales_select s) = remdups (map fs_product_sk (fact_sales s))"
  by (simp add: agg_product_sales_select_def group_keys_def comp_def Let_def)

lemma agg_daily_keys:
  "map ads_date_sk (agg_daily_sales_select s) = remdups (map fs_date_sk (fact_sales s))"
  by (simp add: agg_daily_sales_select_def group_keys_def comp_def Let_def)

lemma agg_product_row:
  assumes "a \<in> set (agg_product_sales_select s)"
  shows "filter (\<lambda>f. fs_product_sk f = aps_product_sk a) (fact_sales s) \<noteq> [] \<and>
    aps_total_sales a =
      sum_list (map fs_line_total (filter (\<lambda>f. fs_product_sk f = aps_product_sk a) (fact_sales s))) \<and>
    aps_total_units_sold a =
      sum_list (map fs_quantity (filter (\<lambda>f. fs_product_sk f = aps_product_sk a) (fact_sales s))) \<and>
    aps_transaction_count a =
      card (fs_transaction_id ` set (filter (\<lambda>f. fs_product_sk f = aps_product_sk a) (fact_sales s))) \<and>
    aps_avg_discount a =
      sum_list (map fs_discount_percentage
                  (filter (\<lambda>f. fs_product_sk f = aps_product_sk a) (fact_sales s)))
      / of_nat (length (filter (\<lambda>f. fs_product_sk f = aps_product_sk a) (fact_sales s)))"
proof -
  from assms obtain k where k: "k \<in> set (group_keys fs_product_sk (fact_sales s))"
    and a: "a = \<lparr>aps_product_sk = k,
                  aps_total_sales = SUM_list (map fs_line_total (group_rows fs_product_sk (fact_sales s) k)),
                  aps_total_units_sold = SUM_list (map fs_quantity (group_rows fs_product_sk (fact_sales s) k)),
                  aps_transaction_count = COUNT_DISTINCT (map fs_transaction_id (group_rows fs_product_sk (fact_sales s) k)),
                  aps_avg_discount = AVG (map fs_discount_percentage (group_rows fs_product_sk (fact_sales s) k))\<rparr>"
    by (auto simp add: agg_product_sales_select_def Let_def)
  from group_rows_nonempty [OF k] a show ?thesis
    by (simp add: group_rows_def SUM_list_def AVG_def count_distinct_card)
qed

lemma agg_daily_row:
  assumes "a \<in> set (agg_daily_sales_select s)"
  shows "filter (\<lambda>f. fs_date_sk f = ads_date_sk a) (fact_sales s) \<noteq> [] \<and>
    ads_total_sales a =
      sum_list (map fs_line_total (filter (\<lambda>f. fs_date_sk f = ads_date_sk a) (fact_sales s))) \<and>
    ads_total_units_sold a =
      sum_list (map fs_quantity (filter (\<lambda>f. fs_date_sk f = ads_date_sk a) (fact_sales s))) \<and>
    ads_transaction_count a =
      card (fs_transaction_id ` set (filter (\<lambda>f. fs_date_sk f = ads_date_sk a) (fact_sales s))) \<and>
    ads_customer_count a =
      card (fs_customer_sk ` set (filter (\<lambda>f. fs_date_sk f = ads_date_sk a) (fact_sales s))) \<and>
    ads_avg_transaction_value a =
      sum_list (map fs_transaction_total
                  (filter (\<lambda>f. fs_date_sk f = ads_date_sk a) (fact_sales s)))
      / of_nat (length (filter (\<lambda>f. fs_date_sk f = ads_date_sk a) (fact_sales s)))"
proof -
  from assms obtain k where k: "k \<in> set (group_keys fs_date_sk (fact_sales s))"
    and a: "a = \<lparr>ads_date_sk = k,
                  ads_total_sales = SUM_list (map fs_line_total (group_rows fs_date_sk (fact_sales s) k)),
                  ads_total_units_sold = SUM_list (map fs_quantity (group_rows fs_date_sk (fact_sales s) k)),
                  ads_transaction_count = COUNT_DISTINCT (map fs_transaction_id (group_rows fs_date_sk (fact_sales s) k)),
                  ads_customer_count = COUNT_DISTINCT (map fs_customer_sk (group_rows fs_date_sk (fact_sales s) k)),
                  ads_avg_transaction_value = AVG (map fs_transaction_total (group_rows fs_date_sk (fact_sales s) k))\<rparr>"
    by (auto simp add: agg_daily_sales_select_def Let_def)
  from group_rows_nonempty [OF k] a show ?thesis
    by (simp add: group_rows_def SUM_list_def AVG_def count_distinct_card)
qed

lemma join_one_each:
  assumes "\<forall>f \<in> set fs. length (filter (P f) dds) = 1"
  shows "map fst (concat (map (\<lambda>f. map (\<lambda>dd. (f, dd)) (filter (P f) dds)) fs)) = fs"
  using assms
proof (induction fs)
  case Nil
  then show ?case by simp
next
  case (Cons f fs)
  from Cons.prems have "length (filter (P f) dds) = 1" by simp
  then obtain d where "filter (P f) dds = [d]"
    by (cases "filter (P f) dds") auto
  with Cons show ?case by simp
qed

lemma fact_date_join_facts:
  "date_key_ok s \<Longrightarrow> map fst (fact_date_join s) = fact_sales s"
  unfolding fact_date_join_def date_key_ok_def list_all_iff
  by (rule join_one_each) simp

lemma group_of_join:
  assumes "date_key_ok s"
  shows "map fst (group_rows (\<lambda>j. fs_customer_sk (fst j)) (fact_date_join s) k) =
         filter (\<lambda>f. fs_customer_sk f = k) (fact_sales s)"
proof -
  have "map fst (filter (\<lambda>j. fs_customer_sk (fst j) = k) (fact_date_join s)) =
        filter (\<lambda>f. fs_customer_sk f = k) (map fst (fact_date_join s))"
    by (simp add: filter_map comp_def)
  with fact_date_join_facts [OF assms] show ?thesis
    by (simp add: group_rows_def)
qed

lemma agg_customer_row:
  assumes ok: "date_key_ok s" and "a \<in> set (agg_customer_lifetime_select s)"
  shows "filter (\<lambda>f. fs_customer_sk f = acl_customer_sk a) (fact_sales s) \<noteq> [] \<and>
    acl_total_spent a =
      sum_list (map fs_line_total (filter (\<lambda>f. fs_customer_sk f = acl_customer_sk a) (fact_sales s))) \<and>
    acl_total_units_purchased a =
      sum_list (map fs_quantity (filter (\<lambda>f. fs_customer_sk f = acl_customer_sk a) (fact_sales s))) \<and>
    acl_transaction_count a =
      card (fs_transaction_id ` set (filter (\<lambda>f. fs_customer_sk f = acl_customer_sk a) (fact_sales s))) \<and>
    acl_avg_transaction_value a =
      sum_list (map fs_transaction_total
                  (filter (\<lambda>f. fs_customer_sk f = acl_customer_sk a) (fact_sales s)))
      / of_nat (length (filter (\<lambda>f. fs_customer_sk f = acl_customer_sk a) (fact_sales s))) \<and>
    acl_first_purchase_date a =
      Min {date_id (dd_row dd) | dd f. f \<in> set (fact_sales s) \<and> fs_customer_sk f = acl_customer_sk a \<and>
                                   dd \<in> set (dim_date s) \<and> dd_date_sk dd = fs_date_sk f} \<and>
    acl_last_purchase_date a =
      Max {date_id (dd_row dd) | dd f. f \<in> set (fact_sales s) \<and> fs_customer_sk f = acl_customer_sk a \<and>
                                   dd \<in> set (dim_date s) \<and> dd_date_sk dd = fs_date_sk f}"
proof -
  define g where "g = group_rows (\<lambda>j. fs_customer_sk (fst j)) (fact_date_join s) (acl_customer_sk a)"
  from assms(2) obtain k where k: "k \<in> set (group_keys (\<lambda>j. fs_customer_sk (fst j)) (fact_date_join s))"
    and a: "a = \<lparr>acl_customer_sk = k,
                  acl_total_spent = SUM_list (map (\<lambda>j. fs_line_total (fst j)) (group_rows (\<lambda>j. fs_customer_sk (fst j)) (fact_date_join s) k)),
                  acl_total_units_purchased = SUM_list (map (\<lambda>j. fs_quantity (fst j)) (group_rows (\<lambda>j. fs_customer_sk (fst j)) (fact_date_join s) k)),
                  acl_transaction_count = COUNT_DISTINCT (map (\<lambda>j. fs_transaction_id (fst j)) (group_rows (\<lambda>j. fs_customer_sk (fst j)) (fact_date_join s) k)),
                  acl_first_purchase_date = Min (set (map (\<lambda>j. date_id (dd_row (snd j))) (group_rows (\<lambda>j. fs_customer_sk (fst j)) (fact_date_join s) k))),
                  acl_last_purchase_date = Max (set (map (\<lambda>j. date_id (dd_row (snd j))) (group_rows (\<lambda>j. fs_customer_sk (fst j)) (fact_date_join s) k))),
                  acl_avg_transaction_value = AVG (map (\<lambda>j. fs_transaction_total (fst j)) (group_rows (\<lambda>j. fs_customer_sk (fst j)) (fact_date_join s) k))\<rparr>"
    by (auto simp add: agg_customer_lifetime_select_def Let_def)
  have ka: "acl_customer_sk a = k" using a by simp
  have facts: "map fst g = filter (\<lambda>f. fs_customer_sk f = acl_customer_sk a) (fact_sales s)"
    unfolding g_def by (rule group_of_join [OF ok])
  have ne: "g \<noteq> []"
    unfolding g_def ka by (rule group_rows_nonempty [OF k])
  have m: "map (\<lambda>j. h (fst j)) g = map h (map fst g)" for h :: "fact_sale \<Rightarrow> 'x"
    by simp
  have dates: "set (map (\<lambda>j. date_id (dd_row (snd j))) g) =
      {date_id (dd_row dd) | dd f. f \<in> set (fact_sales s) \<and> fs_customer_sk f = acl_customer_sk a \<and>
                                   dd \<in> set (dim_date s) \<and> dd_date_sk dd = fs_date_sk f}"
    unfolding g_def group_rows_def fact_date_join_def by force
  have vals: "acl_total_spent a = sum_list (map (\<lambda>j. fs_line_total (fst j)) g) \<and>
      acl_total_units_purchased a = sum_list (map (\<lambda>j. fs_quantity (fst j)) g) \<and>
      acl_transaction_count a = card (set (map (\<lambda>j. fs_transaction_id (fst j)) g)) \<and>
      acl_avg_transaction_value a = sum_list (map (\<lambda>j. fs_transaction_total (fst j)) g) / of_nat (length g) \<and>
      acl_first_purchase_date a = Min (set (map (\<lambda>j. date_id (dd_row (snd j))) g)) \<and>
      acl_last_purchase_date a = Max (set (map (\<lambda>j. date_id (dd_row (snd j))) g))"
    unfolding g_def ka using a by (simp add: SUM_list_def AVG_def count_distinct_card)
  have len: "length g = length (filter (\<lambda>f. fs_customer_sk f = acl_customer_sk a) (fact_sales s))"
    using facts by (metis length_map)
  have ne': "filter (\<lambda>f. fs_customer_sk f = acl_customer_sk a) (fact_sales s) \<noteq> []"
    using ne facts by (metis map_is_Nil_conv)
  show ?thesis
    using vals ne' len
    unfolding m dates facts
    by (simp only: set_map simp_thms)
qed

lemma two_rows_example:
  assumes "fact_sales s = [f1, f2]" "fs_product_sk f1 = P" "fs_product_sk f2 = P"
    "fs_line_total f1 = 30" "fs_line_total f2 = 20" "fs_quantity f1 = 2" "fs_quantity f2 = 1"
    "fs_transaction_id f1 \<noteq> fs_transaction_id f2"
  shows "map (\<lambda>a. (aps_product_sk a, aps_total_sales a, aps_total_units_sold a,
                    aps_transaction_count a)) (agg_product_sales_select s) = [(P, 50, 3, 2)]"
  using assms
  by (simp add: agg_product_sales_select_def group_keys_def group_rows_def SUM_list_def
        COUNT_DISTINCT_def Let_def)

lemma agg_product_inserted:
  assumes "a \<in> set (agg_product_sales_select s)"
    and "\<forall>b \<in> set (agg_product_sales s). aps_product_sk b \<noteq> aps_product_sk a"
  shows "a \<in> set (agg_product_sales (fst (build_agg_product_sales s)))"
proof -
  have "distinct (map aps_product_sk (agg_product_sales_select s))"
    by (simp add: agg_product_keys)
  from insert_on_conflict_new_row
    [where cf = agg_product_sales_conflict and mk = "\<lambda>sk r. r" and kr = aps_product_sk
       and kc = aps_product_sk and cs = "agg_product_sales_select s" and c = a
       and tbl = "agg_product_sales s" and sq = 0 and cnt = 0,
     OF _ _ this assms]
  show ?thesis
    by (simp add: build_agg_product_sales_def Let_def agg_product_sales_conflict_def)
qed

subsection \<open>Date keys of the stores that builds reach\<close>

lemma insert_keeps_keys_fresh:
  assumes sk: "\<And>sk c. f (mk sk c) = sk"
  shows "distinct (map f tbl) \<and> (\<forall>r \<in> set tbl. f r \<le> sq) \<Longrightarrow>
         distinct (map f (fst (insert_on_conflict cf mk cs (tbl, sq, cnt)))) \<and>
         (\<forall>r \<in> set (fst (insert_on_conflict cf mk cs (tbl, sq, cnt))).
            f r \<le> fst (snd (insert_on_conflict cf mk cs (tbl, sq, cnt))))"
proof (induction cs arbitrary: tbl sq cnt)
  case Nil
  then show ?case by simp
next
  case (Cons c cs)
  show ?case
  proof (cases "list_ex (\<lambda>r'. cf r' (mk (Suc sq) c)) tbl")
    case True
    with Cons.IH [OF Cons.prems, of cnt] show ?thesis by simp
  next
    case False
    from Cons.prems
    have "distinct (map f (tbl @ [mk (Suc sq) c])) \<and>
          (\<forall>r \<in> set (tbl @ [mk (Suc sq) c]). f r \<le> Suc sq)"
      by (auto simp add: sk)
    from Cons.IH [OF this, of "Suc cnt"] False show ?thesis by simp
  qed
qed

lemma join_item_date:
  "(ti', t, dc, dp, dd, dpm) \<in> set (join_item s ti) \<Longrightarrow> dd \<in> set (dim_date s)"
  by (auto simp add: join_item_def)

lemma new_fact_has_date_row:
  assumes "x \<in> set (fact_sales_select s)"
  shows "\<exists>d \<in> set (dim_date s). dd_date_sk d = fs_date_sk (fact_row x)"
proof -
  obtain ti t dc dp dd dpm where x: "x = (ti, t, dc, dp, dd, dpm)"
    by (cases x) auto
  from fact_sales_select_item [OF assms] x
  have "(ti, t, dc, dp, dd, dpm) \<in> set (join_item s ti)" by simp
  from join_item_date [OF this] x show ?thesis by auto
qed

lemma build_fact_sales_date_keys:
  "date_keys_ok s \<Longrightarrow> date_keys_ok (fst (build_fact_sales s))"
  using new_fact_has_date_row [of _ s]
  by (auto simp add: date_keys_ok_def build_fact_sales_def list_all_iff list_ex_iff)

lemma build_dim_date_date_keys:
  assumes "date_keys_ok s" and "build_dim_date a b s = Inr r"
  shows "date_keys_ok (fst r)"
proof -
  from assms(2) obtain a' b' where ab: "a = Some a'" "b = Some b'"
    by (auto simp add: build_dim_date_def split: option.splits)
  define res where "res = insert_on_conflict (\<lambda>r r'. False)
                       (\<lambda>sk r. \<lparr>dd_date_sk = sk, dd_row = r\<rparr>) (build_dim_date_rows a' b')
                       (dim_date s, seq_date_sk s, 0)"
  from assms(2) ab have r: "fst r = s\<lparr>dim_date := fst res, seq_date_sk := fst (snd res)\<rparr>"
    by (auto simp add: build_dim_date_def Let_def res_def)
  from assms(1) have "distinct (map dd_date_sk (dim_date s)) \<and>
      (\<forall>d \<in> set (dim_date s). dd_date_sk d \<le> seq_date_sk s)"
    by (simp add: date_keys_ok_def list_all_iff)
  then have fresh: "distinct (map dd_date_sk (fst res)) \<and>
      (\<forall>d \<in> set (fst res). dd_date_sk d \<le> fst (snd res))"
    unfolding res_def by (intro insert_keeps_keys_fresh [where f = dd_date_sk]) simp_all
  have "set (dim_date s) \<subseteq> set (fst res)"
    unfolding res_def by (rule insert_on_conflict_keeps)
  moreover from assms(1)
  have "\<forall>f \<in> set (fact_sales s). \<exists>d \<in> set (dim_date s). dd_date_sk d = fs_date_sk f"
    by (simp add: date_keys_ok_def list_all_iff list_ex_iff)
  ultimately
  have "\<forall>f \<in> set (fact_sales s). \<exists>d \<in> set (fst res). dd_date_sk d = fs_date_sk f"
    by blast
  with fresh r show ?thesis
    by (simp add: date_keys_ok_def list_all_iff list_ex_iff)
qed

lemma other_steps_keep_date_keys:
  "date_keys_ok s \<Longrightarrow> date_keys_ok (fst (build_dim_customers today s))"
  "date_keys_ok s \<Longrightarrow> date_keys_ok (fst (build_dim_products today s))"
  "date_keys_ok s \<Longrightarrow> date_keys_ok (fst (build_dim_payment_method s))"
  "date_keys_ok s \<Longrightarrow> date_keys_ok (fst (build_agg_daily_sales s))"
  "date_keys_ok s \<Longrightarrow> date_keys_ok (fst (build_agg_product_sales s))"
  "date_keys_ok s \<Longrightarrow> date_keys_ok (fst (build_agg_customer_lifetime s))"
  "date_keys_ok s \<Longrightarrow> date_keys_ok (fst (apply_scd_type2 today dimension_name s))"
  by (simp_all add: date_keys_ok_def build_dim_customers_def build_dim_products_def
        build_dim_payment_method_def build_agg_daily_sales_def build_agg_product_sales_def
        build_agg_customer_lifetime_def apply_scd_type2_def Let_def)

lemma step_effect_date_keys:
  assumes "date_keys_ok s" and "step_effect today st s = Inr r"
  shows "date_keys_ok (fst r)"
proof (cases st)
  case DimDate
  with assms(2) obtain r' where
    "build_dim_date (fst (transaction_date_range s)) (snd (transaction_date_range s)) s = Inr r'"
    and "fst r = fst r'"
    by (auto simp add: step_effect_def Let_def split: sum.splits)
  with build_dim_date_date_keys [OF assms(1)] show ?thesis by simp
next
  case FactSales
  with assms build_fact_sales_date_keys [of s] show ?thesis
    by (auto simp add: step_effect_def Let_def)
qed (use assms other_steps_keep_date_keys [of s] in
      \<open>auto simp add: step_effect_def Let_def\<close>)

lemma run_steps_date_keys:
  "date_keys_ok s \<Longrightarrow> run_steps today fails sts (s, lg) = Inr r \<Longrightarrow> date_keys_ok (fst r)"
proof (induction sts arbitrary: s lg)
  case Nil
  then show ?case by auto
next
  case (Cons st sts)
  from Cons.prems(2) obtain r1 where r1: "step_effect today st s = Inr r1"
    and rest: "run_steps today fails sts (fst r1, lg @ [snd r1]) = Inr r"
    by (auto simp add: execute_def split: sum.splits if_splits)
  from step_effect_date_keys [OF Cons.prems(1) r1] have "date_keys_ok (fst r1)" .
  from Cons.IH [OF this rest] show ?case .
qed

lemma main_date_keys: "date_keys_ok s \<Longrightarrow> date_keys_ok (fst (main today fails s))"
  using run_steps_date_keys [of s today fails main_steps "[]"]
  by (auto simp add: main_def main_transaction_def split: sum.splits)

lemma apply_op_date_keys: "date_keys_ok s \<Longrightarrow> date_keys_ok (apply_op op s)"
proof (cases op)
  case (ProductionChange cs ps ts tis sts)
  assume "date_keys_ok s"
  with ProductionChange show ?thesis by (simp add: date_keys_ok_def)
next
  case (RunMain today fails)
  assume "date_keys_ok s"
  with RunMain main_date_keys [of s today fails] show ?thesis by simp
next
  case (RunBuildDimCustomers today)
  assume "date_keys_ok s"
  with RunBuildDimCustomers other_steps_keep_date_keys(1) [of s today] show ?thesis by simp
next
  case (RunBuildDimProducts today)
  assume "date_keys_ok s"
  with RunBuildDimProducts other_steps_keep_date_keys(2) [of s today] show ?thesis by simp
next
  case (RunApplyScd today dimension_name)
  assume "date_keys_ok s"
  with RunApplyScd other_steps_keep_date_keys(7) [of s today dimension_name]
  show ?thesis by simp
qed

lemma run_ops_date_keys: "date_keys_ok s \<Longrightarrow> date_keys_ok (run_ops ops s)"
  by (induction ops arbitrary: s) (simp_all add: apply_op_date_keys)

lemma one_row_per_key:
  assumes "distinct (map kr xs)" and "x \<in> set xs"
  shows "length (filter (\<lambda>r. kr x = kr r) xs) = 1"
  using assms
proof (induction xs)
  case Nil
  then show ?case by simp
next
  case (Cons y ys)
  show ?case
  proof (cases "kr x = kr y")
    case True
    with Cons.prems have "kr x \<notin> kr ` set ys" by auto
    then have "filter (\<lambda>r. kr x = kr r) ys = []"
      by (auto simp add: filter_empty_conv)
    with True show ?thesis by simp
  next
    case False
    with Cons show ?thesis by auto
  qed
qed

lemma date_keys_ok_join: "date_keys_ok s \<Longrightarrow> date_key_ok s"
proof -
  assume ok: "date_keys_ok s"
  have "length (filter (\<lambda>dd. fs_date_sk f = dd_date_sk dd) (dim_date s)) = 1"
    if "f \<in> set (fact_sales s)" for f
  proof -
    from ok that obtain d where d: "d \<in> set (dim_date s)" and k: "dd_date_sk d = fs_date_sk f"
      by (auto simp add: date_keys_ok_def list_all_iff list_ex_iff)
    from ok have "distinct (map dd_date_sk (dim_date s))"
      by (simp add: date_keys_ok_def)
    from one_row_per_key [OF this d] k show ?thesis by simp
  qed
  then show ?thesis by (simp add: date_key_ok_def list_all_iff)
qed

lemma reachable_date_key_ok: "date_key_ok (run_ops ops empty_store)"
proof -
  have "date_keys_ok empty_store"
    by (simp add: date_keys_ok_def empty_store_def)
  then show ?thesis
    by (intro date_keys_ok_join run_ops_date_keys)
qed

text \<open>
  Claim C9. Every row that the aggregate builder computes stands for a grouping key
  that at least one fact row carries, one row per key, and its values are the sum, the
  number of distinct values and the average (sum over count) taken over all the fact
  rows of the store with that key: for the product rollup and for the daily rollup on
  every store, and for the customer rollup on every store in which each fact row has
  exactly one date row under its date key (there the first and last purchase dates are
  the least and greatest dates of those rows); every store reached from the empty
  warehouse by changes of the production data, builds, dimension inserts and
  retirements is such a store. A computed product row whose key has no
  row in the aggregate table yet is in the table after the build. For a fact table of
  exactly two rows of product P, with line totals 30 and 20, quantities 2 and 1 and
  distinct transactions, the only product row computed is that of P, with total sales
  50, 3 units sold and 2 transactions.
\<close>

theorem aggregates_match_facts:
  "(\<forall>a \<in> set (agg_product_sales_select s).
      filter (\<lambda>f. fs_product_sk f = aps_product_sk a) (fact_sales s) \<noteq> [] \<and>
      aps_total_sales a =
        sum_list (map fs_line_total (filter (\<lambda>f. fs_product_sk f = aps_product_sk a) (fact_sales s))) \<and>
      aps_total_units_sold a =
        sum_list (map fs_quantity (filter (\<lambda>f. fs_product_sk f = aps_product_sk a) (fact_sales s))) \<and>
      aps_transaction_count a =
        card (fs_transaction_id ` set (filter (\<lambda>f. fs_product_sk f = aps_product_sk a) (fact_sales s))) \<and>
      aps_avg_discount a =
        sum_list (map fs_discount_percentage
                    (filter (\<lambda>f. fs_product_sk f = aps_product_sk a) (fact_sales s)))
        / of_nat (length (filter (\<lambda>f. fs_product_sk f = aps_product_sk a) (fact_sales s)))) \<and>
   (\<forall>a \<in> set (agg_daily_sales_select s).
      filter (\<lambda>f. fs_date_sk f = ads_date_sk a) (fact_sales s) \<noteq> [] \<and>
      ads_total_sales a =
        sum_list (map fs_line_total (filter (\<lambda>f. fs_date_sk f = ads_date_sk a) (fact_sales s))) \<and>
      ads_total_units_sold a =
        sum_list (map fs_quantity (filter (\<lambda>f. fs_date_sk f = ads_date_sk a) (fact_sales s))) \<and>
      ads_transaction_count a =
        card (fs_transaction_id ` set (filter (\<lambda>f. fs_date_sk f = ads_date_sk a) (fact_sales s))) \<and>
      ads_customer_count a =
        card (fs_customer_sk ` set (filter (\<lambda>f. fs_date_sk f = ads_date_sk a) (fact_sales s))) \<and>
      ads_avg_transaction_value a =
        sum_list (map fs_transaction_total
                    (filter (\<lambda>f. fs_date_sk f = ads_date_sk a) (fact_sales s)))
        / of_nat (length (filter (\<lambda>f. fs_date_sk f = ads_date_sk a) (fact_sales s)))) \<and>
   (date_key_ok s \<longrightarrow>
    (\<forall>a \<in> set (agg_customer_lifetime_select s).
      filter (\<lambda>f. fs_customer_sk f = acl_customer_sk a) (fact_sales s) \<noteq> [] \<and>
      acl_total_spent a =
        sum_list (map fs_line_total (filter (\<lambda>f. fs_customer_sk f = acl_customer_sk a) (fact_sales s))) \<and>
      acl_total_units_purchased a =
        sum_list (map fs_quantity (filter (\<lambda>f. fs_customer_sk f = acl_customer_sk a) (fact_sales s))) \<and>
      acl_transaction_count a =
        card (fs_transaction_id ` set (filter (\<lambda>f. fs_customer_sk f = acl_customer_sk a) (fact_sales s))) \<and>
      acl_avg_transaction_value a =
        sum_list (map fs_transaction_total
                    (filter (\<lambda>f. fs_customer_sk f = acl_customer_sk a) (fact_sales s)))
        / of_nat (length (filter (\<lambda>f. fs_customer_sk f = acl_customer_sk a) (fact_sales s))) \<and>
      acl_first_purchase_date a =
        Min {date_id (dd_row dd) | dd f. f \<in> set (fact_sales s) \<and> fs_customer_sk f = acl_customer_sk a \<and>
                                     dd \<in> set (dim_date s) \<and> dd_date_sk dd = fs_date_sk f} \<and>
      acl_last_purchase_date a =
        Max {date_id (dd_row dd) | dd f. f \<in> set (fact_sales s) \<and> fs_customer_sk f = acl_customer_sk a \<and>
                                     dd \<in> set (dim_date s) \<and> dd_date_sk dd = fs_date_sk f})) \<and>
   date_key_ok (run_ops ops empty_store) \<and>
   map aps_product_sk (agg_product_sales_select s) = remdups (map fs_product_sk (fact_sales s)) \<and>
   map ads_date_sk (agg_daily_sales_select s) = remdups (map fs_date_sk (fact_sales s)) \<and>
   (\<forall>a \<in> set (agg_product_sales_select s).
      (\<forall>b \<in> set (agg_product_sales s). aps_product_sk b \<noteq> aps_product_sk a) \<longrightarrow>
      a \<in> set (agg_product_sales (fst (build_agg_product_sales s)))) \<and>
   (fact_sales s = [f1, f2] \<and> fs_product_sk f1 = P \<and> fs_product_sk f2 = P \<and>
    fs_line_total f1 = 30 \<and> fs_line_total f2 = 20 \<and> fs_quantity f1 = 2 \<and> fs_quantity f2 = 1 \<and>
    fs_transaction_id f1 \<noteq> fs_transaction_id f2 \<longrightarrow>
    map (\<lambda>a. (aps_product_sk a, aps_total_sales a, aps_total_units_sold a,
               aps_transaction_count a)) (agg_product_sales_select s) = [(P, 50, 3, 2)])"
  using agg_product_row [of _ s] agg_daily_row [of _ s] agg_customer_row [of s]
    agg_product_keys [of s] agg_daily_keys [of s] agg_product_inserted [of _ s]
    two_rows_example [of s f1 f2 P] reachable_date_key_ok [of ops]
  by (intro conjI ballI impI) blast+

theorem aggregates_match_facts_witness:
  "map (\<lambda>f. (fs_product_sk f, fs_line_total f, fs_quantity f, fs_transaction_id f))
     (fact_sales loaded) = [(1, 30, 2, ''TXN0001''), (1, 20, 1, ''TXN0002'')] \<and>
   date_key_ok loaded \<and> agg_product_sales loaded = [] \<and>
   map (\<lambda>a. (aps_product_sk a, aps_total_sales a, aps_total_units_sold a,
              aps_transaction_count a)) (agg_product_sales_select loaded) = [(1, 50, 3, 2)] \<and>
   hd (agg_product_sales_select loaded)
     \<in> set (agg_product_sales (fst (build_agg_product_sales loaded))) \<and>
   map (\<lambda>a. (acl_customer_sk a, acl_total_spent a, acl_transaction_count a,
              acl_first_purchase_date a, acl_last_purchase_date a, acl_avg_transaction_value a))
     (agg_customer_lifetime_select loaded) =
     [(1, 50, 2, ymd2ord 2024 1 1, ymd2ord 2024 1 3, 25)]"
proof -
  have facts: "map (\<lambda>f. (fs_product_sk f, fs_line_total f, fs_quantity f, fs_transaction_id f))
     (fact_sales loaded) = [(1, 30, 2, ''TXN0001''), (1, 20, 1, ''TXN0002'')]"
    by code_simp
  have two: "fact_sales loaded = [fact_sales loaded ! 0, fact_sales loaded ! 1]"
    by code_simp
  have vals: "fs_product_sk (fact_sales loaded ! 0) = 1 \<and> fs_product_sk (fact_sales loaded ! 1) = 1 \<and>
    fs_line_total (fact_sales loaded ! 0) = 30 \<and> fs_line_total (fact_sales loaded ! 1) = 20 \<and>
    fs_quantity (fact_sales loaded ! 0) = 2 \<and> fs_quantity (fact_sales loaded ! 1) = 1 \<and>
    fs_transaction_id (fact_sales loaded ! 0) \<noteq> fs_transaction_id (fact_sales loaded ! 1)"
    by code_simp
  have ok: "date_key_ok loaded"
    by code_simp
  have none: "agg_product_sales loaded = []"
    by code_simp
  have cust: "map (\<lambda>a. (acl_customer_sk a, acl_total_spent a, acl_transaction_count a,
              acl_first_purchase_date a, acl_last_purchase_date a, acl_avg_transaction_value a))
     (agg_customer_lifetime_select loaded) =
     [(1, 50, 2, ymd2ord 2024 1 1, ymd2ord 2024 1 3, 25)]"
    by code_simp
  note inst = aggregates_match_facts
    [of loaded "[]" "fact_sales loaded ! 0" "fact_sales loaded ! 1" 1]
  from inst two vals
  have rows: "map (\<lambda>a. (aps_product_sk a, aps_total_sales a, aps_total_units_sold a,
              aps_transaction_count a)) (agg_product_sales_select loaded) = [(1, 50, 3, 2)]"
    by blast
  then have "agg_product_sales_select loaded \<noteq> []" by auto
  then have "hd (agg_product_sales_select loaded) \<in> set (agg_product_sales_select loaded)"
    by simp
  with inst none
  have ins: "hd (agg_product_sales_select loaded)
     \<in> set (agg_product_sales (fst (build_agg_product_sales loaded)))"
    by simp
  show ?thesis using facts ok none rows ins cust by (simp only: simp_thms)
qed

subsection \<open>The build as a transaction\<close>

lemma every_step_in_main: "st \<in> set main_steps"
  by (cases st) (simp_all add: main_steps_def)

lemma run_steps_fail:
  "\<exists>st \<in> set sts. fails st \<Longrightarrow> \<exists>e. run_steps today fails sts (s, lg) = Inl e"
proof (induction sts arbitrary: s lg)
  case Nil
  then show ?case by simp
next
  case (Cons st sts)
  show ?case
  proof (cases "execute today fails st s")
    case (Inl e)
    then show ?thesis by simp
  next
    case (Inr r)
    then have "\<not> fails st" by (auto simp add: execute_def split: if_splits)
    with Cons.prems have "\<exists>st \<in> set sts. fails st" by simp
    from Cons.IH [OF this, of "fst r" "lg @ [snd r]"] Inr show ?thesis by simp
  qed
qed

lemma main_error_rolls_back: "snd (main today fails s) = Inl e \<Longrightarrow> fst (main today fails s) = s"
  by (simp add: main_def split: sum.splits)

lemma main_fails_when_step_fails:
  assumes "fails st"
  shows "\<exists>e. main today fails s = (s, Inl e)"
proof -
  from assms every_step_in_main [of st] have "\<exists>st \<in> set main_steps. fails st" by blast
  from run_steps_fail [OF this, of today s "[]"]
  show ?thesis by (auto simp add: main_def main_transaction_def)
qed

text \<open>
  Claim C2. The build is one atomic unit. When it ends with an error the committed
  store is the store it started from, whatever the earlier steps had written; when it
  succeeds, the committed store is the one all its steps produced together. When the
  store raises on the statement of any step, the build ends with an error and nothing
  is committed; in particular a failure of the fact load leaves the fact table and the
  three aggregate tables as they were.
\<close>

theorem build_is_atomic:
  "(\<forall>e. snd (main today fails s) = Inl e \<longrightarrow> fst (main today fails s) = s) \<and>
   (\<forall>lg. snd (main today fails s) = Inr lg \<longrightarrow>
      main_transaction today fails s = Inr (fst (main today fails s), lg)) \<and>
   (fails st \<longrightarrow> (\<exists>e. main today fails s = (s, Inl e))) \<and>
   (fails FactSales \<longrightarrow>
      (\<exists>e. snd (main today fails s) = Inl e) \<and>
      fact_sales (fst (main today fails s)) = fact_sales s \<and>
      agg_daily_sales (fst (main today fails s)) = agg_daily_sales s \<and>
      agg_product_sales (fst (main today fails s)) = agg_product_sales s \<and>
      agg_customer_lifetime (fst (main today fails s)) = agg_customer_lifetime s)"
proof -
  have a: "\<forall>e. snd (main today fails s) = Inl e \<longrightarrow> fst (main today fails s) = s"
    using main_error_rolls_back by blast
  have b: "\<forall>lg. snd (main today fails s) = Inr lg \<longrightarrow>
      main_transaction today fails s = Inr (fst (main today fails s), lg)"
    by (simp add: main_def split: sum.splits)
  have c: "fails st \<longrightarrow> (\<exists>e. main today fails s = (s, Inl e))"
    using main_fails_when_step_fails by blast
  have d: "fails FactSales \<longrightarrow>
      (\<exists>e. snd (main today fails s) = Inl e) \<and>
      fact_sales (fst (main today fails s)) = fact_sales s \<and>
      agg_daily_sales (fst (main today fails s)) = agg_daily_sales s \<and>
      agg_product_sales (fst (main today fails s)) = agg_product_sales s \<and>
      agg_customer_lifetime (fst (main today fails s)) = agg_customer_lifetime s"
  proof
    assume "fails FactSales"
    then obtain e where "main today fails s = (s, Inl e)"
      using main_fails_when_step_fails [of fails FactSales today s] by blast
    then show "(\<exists>e. snd (main today fails s) = Inl e) \<and>
      fact_sales (fst (main today fails s)) = fact_sales s \<and>
      agg_daily_sales (fst (main today fails s)) = agg_daily_sales s \<and>
      agg_product_sales (fst (main today fails s)) = agg_product_sales s \<and>
      agg_customer_lifetime (fst (main today fails s)) = agg_customer_lifetime s"
      by simp
  qed
  show ?thesis using a b c d by (simp only: simp_thms)
qed

theorem build_is_atomic_witness:
  "fact_sales_fails FactSales \<and>
   main (ymd2ord 2024 2 1) fact_sales_fails shop = (shop, Inl (StoreError FactSales)) \<and>
   fact_sales (fst (main (ymd2ord 2024 2 1) fact_sales_fails shop)) = [] \<and>
   dim_customers (fst (main (ymd2ord 2024 2 1) fact_sales_fails shop)) = [] \<and>
   length (fact_sales (fst (main (ymd2ord 2024 2 1) never_fails shop))) = 2"
proof -
  have f: "fact_sales_fails FactSales"
    by (simp add: fact_sales_fails_def)
  have e: "snd (main (ymd2ord 2024 2 1) fact_sales_fails shop) = Inl (StoreError FactSales)"
    by code_simp
  have n: "length (fact_sales (fst (main (ymd2ord 2024 2 1) never_fails shop))) = 2"
    by code_simp
  have init: "fact_sales shop = [] \<and> dim_customers shop = []"
    by (simp add: shop_def empty_store_def)
  from build_is_atomic [of "ymd2ord 2024 2 1" fact_sales_fails shop FactSales] e
  have rolled: "fst (main (ymd2ord 2024 2 1) fact_sales_fails shop) = shop"
    by simp
  with e have "main (ymd2ord 2024 2 1) fact_sales_fails shop = (shop, Inl (StoreError FactSales))"
    by (simp add: prod_eq_iff)
  with f n init show ?thesis by simp
qed

subsection \<open>A build without transactions\<close>

lemma date_step_without_transactions:
  "production_transactions s = [] \<Longrightarrow> step_effect today DimDate s = Inl ValueError"
  by (simp add: step_effect_def transaction_date_range_def build_dim_date_def)

lemma dim_builders_keep_transactions:
  "production_transactions (fst (build_dim_customers today s)) = production_transactions s"
  "production_transactions (fst (build_dim_products today s)) = production_transactions s"
  by (simp_all add: build_dim_customers_def build_dim_products_def Let_def)

lemma main_without_transactions:
  assumes "production_transactions s = []"
  shows "(\<exists>e. main_transaction today fails s = Inl e) \<and>
         (\<not> fails DimCustomers \<and> \<not> fails DimProducts \<and> \<not> fails DimDate \<longrightarrow>
            main_transaction today fails s = Inl ValueError)"
  using assms
  by (simp add: main_transaction_def main_steps_def execute_def
        date_step_without_transactions dim_builders_keep_transactions
        step_effect_def [of today DimCustomers] step_effect_def [of today DimProducts] Let_def)

text \<open>
  Claim C3, as amended. When the production transactions table is empty, no date range
  is made up and no date row is appended: the date dimension step raises a
  \<open>ValueError\<close>. The error is not caught, so the whole build ends with it: nothing is
  committed, the dimension rows of the steps before it included, and no build report
  is returned.
\<close>

theorem empty_transactions_abort:
  assumes "production_transactions s = []"
  shows "transaction_date_range s = (None, None) \<and>
         step_effect today DimDate s = Inl ValueError \<and>
         (\<exists>e. main today fails s = (s, Inl e)) \<and>
         (\<not> fails DimCustomers \<and> \<not> fails DimProducts \<and> \<not> fails DimDate \<longrightarrow>
            main today fails s = (s, Inl ValueError))"
  using assms main_without_transactions [OF assms, of today fails]
    date_step_without_transactions [OF assms, of today]
  by (auto simp add: main_def transaction_date_range_def)

theorem empty_transactions_abort_witness:
  "production_transactions no_sales = [] \<and>
   step_effect (ymd2ord 2024 3 1) DimDate no_sales = Inl ValueError \<and>
   main (ymd2ord 2024 3 1) never_fails no_sales = (no_sales, Inl ValueError) \<and>
   length (production_customers no_sales) = 1 \<and>
   dim_customers (fst (main (ymd2ord 2024 3 1) never_fails no_sales)) = []"
proof -
  have e: "production_transactions no_sales = []"
    by (simp add: no_sales_def)
  have n: "\<not> never_fails DimCustomers \<and> \<not> never_fails DimProducts \<and> \<not> never_fails DimDate"
    by (simp add: never_fails_def)
  have c: "length (production_customers no_sales) = 1 \<and> dim_customers no_sales = []"
    by (simp add: no_sales_def shop_def empty_store_def)
  show ?thesis
    using empty_transactions_abort [OF e, of "ymd2ord 2024 3 1" never_fails] e n c by simp
qed

text \<open>
  Against claim C3 as stated: on a store without transactions the build returns no
  report at all, so the date step is not reported with zero rows, and the build does not
  go on past it.
\<close>

theorem empty_transactions_abort_counterexample:
  "snd (main (ymd2ord 2024 2 1) never_fails no_sales) = Inl ValueError \<and>
   dim_payment_method (fst (main (ymd2ord 2024 2 1) never_fails no_sales)) = [] \<and>
   dim_customers (fst (main (ymd2ord 2024 2 1) never_fails no_sales)) = []"
  by code_simp

subsection \<open>The order of the steps\<close>

lemma execute_key:
  "execute today fails st s = Inr r \<Longrightarrow> (fst (snd r), fst (snd (snd r))) = log_key st"
  by (cases st)
     (auto simp add: execute_def step_effect_def log_key_def Let_def
        split: if_splits sum.splits)

lemma run_steps_keys:
  "run_steps today fails sts (s, lg) = Inr r \<Longrightarrow>
   map (\<lambda>e. (fst e, fst (snd e))) (snd r) = map (\<lambda>e. (fst e, fst (snd e))) lg @ map log_key sts"
proof (induction sts arbitrary: s lg)
  case Nil
  then show ?case by auto
next
  case (Cons st sts)
  from Cons.prems obtain r1 where r1: "execute today fails st s = Inr r1"
    and rest: "run_steps today fails sts (fst r1, lg @ [snd r1]) = Inr r"
    by (auto split: sum.splits)
  from Cons.IH [OF rest] execute_key [OF r1] show ?case by simp
qed

text \<open>
  Claim C4, as amended. The build runs its steps in this order: the inserts into the
  customer and the product dimension, the date dimension, the payment-method dimension,
  then the fact loader, then the daily, product and customer aggregates, and last
  the SCD retirement of customers and of products. So the dimension inserts, the date
  dimension and the reference dimension are complete before the fact loader runs, and
  the fact loader before the aggregate builder; the retirement of inactive entities
  runs after the aggregate builder. A build that succeeds has written its log in that
  order.
\<close>

theorem build_order:
  "runs_before DimCustomers FactSales main_steps \<and>
   runs_before DimProducts FactSales main_steps \<and>
   runs_before DimDate FactSales main_steps \<and>
   runs_before DimPaymentMethod FactSales main_steps \<and>
   runs_before FactSales AggDailySales main_steps \<and>
   runs_before FactSales AggProductSales main_steps \<and>
   runs_before FactSales AggCustomerLifetime main_steps \<and>
   runs_before AggDailySales ScdCustomers main_steps \<and>
   runs_before AggProductSales ScdCustomers main_steps \<and>
   runs_before AggCustomerLifetime ScdCustomers main_steps \<and>
   runs_before ScdCustomers ScdProducts main_steps \<and>
   (\<forall>lg. snd (main today fails s) = Inr lg \<longrightarrow>
      map (\<lambda>e. (fst e, fst (snd e))) lg =
        [(''dimensions_built'', ''dim_customers''), (''dimensions_built'', ''dim_products''),
         (''dimensions_built'', ''dim_date''), (''dimensions_built'', ''dim_payment_method''),
         (''fact_tables_built'', ''fact_sales''), (''aggregates_built'', ''agg_daily_sales''),
         (''aggregates_built'', ''agg_product_sales''),
         (''aggregates_built'', ''agg_customer_lifetime''),
         (''scd_updates'', ''dim_customers''), (''scd_updates'', ''dim_products'')])"
proof -
  have order: "runs_before DimCustomers FactSales main_steps \<and>
   runs_before DimProducts FactSales main_steps \<and>
   runs_before DimDate FactSales main_steps \<and>
   runs_before DimPaymentMethod FactSales main_steps \<and>
   runs_before FactSales AggDailySales main_steps \<and>
   runs_before FactSales AggProductSales main_steps \<and>
   runs_before FactSales AggCustomerLifetime main_steps \<and>
   runs_before AggDailySales ScdCustomers main_steps \<and>
   runs_before AggProductSales ScdCustomers main_steps \<and>
   runs_before AggCustomerLifetime ScdCustomers main_steps \<and>
   runs_before ScdCustomers ScdProducts main_steps"
    by (simp add: runs_before_def position_def main_steps_def)
  have written: "\<forall>lg. snd (main today fails s) = Inr lg \<longrightarrow>
      map (\<lambda>e. (fst e, fst (snd e))) lg =
        [(''dimensions_built'', ''dim_customers''), (''dimensions_built'', ''dim_products''),
         (''dimensions_built'', ''dim_date''), (''dimensions_built'', ''dim_payment_method''),
         (''fact_tables_built'', ''fact_sales''), (''aggregates_built'', ''agg_daily_sales''),
         (''aggregates_built'', ''agg_product_sales''),
         (''aggregates_built'', ''agg_customer_lifetime''),
         (''scd_updates'', ''dim_customers''), (''scd_updates'', ''dim_products'')]"
  proof (intro allI impI)
    fix lg assume "snd (main today fails s) = Inr lg"
    then obtain r where r: "run_steps today fails main_steps (s, []) = Inr r" and "lg = snd r"
      by (auto simp add: main_def main_transaction_def split: sum.splits)
    with run_steps_keys [OF r]
    show "map (\<lambda>e. (fst e, fst (snd e))) lg =
        [(''dimensions_built'', ''dim_customers''), (''dimensions_built'', ''dim_products''),
         (''dimensions_built'', ''dim_date''), (''dimensions_built'', ''dim_payment_method''),
         (''fact_tables_built'', ''fact_sales''), (''aggregates_built'', ''agg_daily_sales''),
         (''aggregates_built'', ''agg_product_sales''),
         (''aggregates_built'', ''agg_customer_lifetime''),
         (''scd_updates'', ''dim_customers''), (''scd_updates'', ''dim_products'')]"
      by (simp add: main_steps_def log_key_def)
  qed
  show ?thesis using order written by (simp only: simp_thms)
qed

theorem build_order_witness:
  "\<exists>lg. snd (main (ymd2ord 2024 2 1) never_fails shop) = Inr lg \<and>
     map (\<lambda>e. fst (snd e)) lg =
       [''dim_customers'', ''dim_products'', ''dim_date'', ''dim_payment_method'',
        ''fact_sales'', ''agg_daily_sales'', ''agg_product_sales'', ''agg_customer_lifetime'',
        ''dim_customers'', ''dim_products'']"
proof -
  have "\<not> isl (snd (main (ymd2ord 2024 2 1) never_fails shop))"
    by code_simp
  then obtain lg where lg: "snd (main (ymd2ord 2024 2 1) never_fails shop) = Inr lg"
    by (cases "snd (main (ymd2ord 2024 2 1) never_fails shop)") auto
  from build_order [of "ymd2ord 2024 2 1" never_fails shop] lg
  have "map (\<lambda>e. (fst e, fst (snd e))) lg =
        [(''dimensions_built'', ''dim_customers''), (''dimensions_built'', ''dim_products''),
         (''dimensions_built'', ''dim_date''), (''dimensions_built'', ''dim_payment_method''),
         (''fact_tables_built'', ''fact_sales''), (''aggregates_built'', ''agg_daily_sales''),
         (''aggregates_built'', ''agg_product_sales''),
         (''aggregates_built'', ''agg_customer_lifetime''),
         (''scd_updates'', ''dim_customers''), (''scd_updates'', ''dim_products'')]"
    by simp
  then have "map snd (map (\<lambda>e. (fst e, fst (snd e))) lg) =
       [''dim_customers'', ''dim_products'', ''dim_date'', ''dim_payment_method'',
        ''fact_sales'', ''agg_daily_sales'', ''agg_product_sales'', ''agg_customer_lifetime'',
        ''dim_customers'', ''dim_products'']"
    by simp
  then have "map (\<lambda>e. fst (snd e)) lg =
       [''dim_customers'', ''dim_products'', ''dim_date'', ''dim_payment_method'',
        ''fact_sales'', ''agg_daily_sales'', ''agg_product_sales'', ''agg_customer_lifetime'',
        ''dim_customers'', ''dim_products'']"
    by (simp add: comp_def)
  with lg show ?thesis by simp
qed

text \<open>
  Against claim C4 as stated: the retirement steps do not run before the fact loader
  but after it. A customer whose dimension row is current and whose production row is
  inactive still gets the line items loaded by the build that retires the row.
\<close>

theorem build_order_counterexample:
  "\<not> runs_before ScdCustomers FactSales main_steps \<and>
   \<not> runs_before ScdProducts FactSales main_steps \<and>
   runs_before FactSales ScdCustomers main_steps \<and>
   runs_before FactSales ScdProducts main_steps \<and>
   map c_is_active (production_customers lapsed) = [False] \<and>
   map dc_is_current (dim_customers lapsed) = [True] \<and>
   fact_sales lapsed = [] \<and>
   map (\<lambda>f. (fs_item_id f, fs_customer_sk f))
     (fact_sales (fst (main (ymd2ord 2024 2 1) never_fails lapsed))) =
     [(''ITEM0001'', 1), (''ITEM0002'', 1)] \<and>
   map (\<lambda>r. (dc_customer_sk r, dc_is_current r))
     (dim_customers (fst (main (ymd2ord 2024 2 1) never_fails lapsed))) = [(1, False)]"
  by code_simp

subsection \<open>One current row per business key\<close>

lemma insert_keeps_distinct:
  assumes key: "\<And>r sk c. cf r (mk sk c) = (kr r = kc c)" and mk: "\<And>sk c. kr (mk sk c) = kc c"
  shows "distinct (map kr (filter P tbl)) \<Longrightarrow>
         distinct (map kr (filter P (fst (insert_on_conflict cf mk cs (tbl, sq, cnt)))))"
proof (induction cs arbitrary: tbl sq cnt)
  case Nil
  then show ?case by simp
next
  case (Cons c cs)
  show ?case
  proof (cases "list_ex (\<lambda>r'. cf r' (mk (Suc sq) c)) tbl")
    case True
    with Cons.IH [OF Cons.prems, of sq cnt] show ?thesis by simp
  next
    case False
    then have "kc c \<notin> kr ` set tbl"
      by (auto simp add: list_ex_iff key)
    then have "kc c \<notin> kr ` set (filter P tbl)" by auto
    with Cons.prems have "distinct (map kr (filter P (tbl @ [mk (Suc sq) c])))"
      by (simp add: mk)
    from Cons.IH [OF this, of "Suc sq" "Suc cnt"] False show ?thesis by simp
  qed
qed

lemma retire_keeps_distinct:
  assumes off: "\<And>r. \<not> P (upd r)"
  shows "distinct (map kr (filter P tbl)) \<Longrightarrow>
         distinct (map kr (filter P (map (\<lambda>r. if H r then upd r else r) tbl)))"
proof -
  have "filter P (map (\<lambda>r. if H r then upd r else r) tbl) =
        filter (\<lambda>r. \<not> H r) (filter P tbl)"
    by (induction tbl) (simp_all add: off)
  moreover assume "distinct (map kr (filter P tbl))"
  ultimately show ?thesis by (simp add: distinct_map_filter del: filter_filter)
qed

lemma build_dim_customers_one_current:
  assumes "one_current s"
  shows "one_current (fst (build_dim_customers today s))"
proof -
  from assms have d: "distinct (map dc_customer_id (filter dc_is_current (dim_customers s)))"
    by (simp add: one_current_def)
  have "distinct (map dc_customer_id (filter dc_is_current
          (fst (insert_on_conflict dim_customers_conflict
                  (\<lambda>sk c. \<lparr>dc_customer_sk = sk, dc_customer_id = c_customer_id c,
                             dc_info = c_info c, dc_is_current = True,
                             dc_effective_date = today, dc_end_date = None\<rparr>)
                  (filter c_is_active (production_customers s))
                  (dim_customers s, seq_customer_sk s, 0)))))"
    by (rule insert_keeps_distinct [where kc = c_customer_id, OF _ _ d])
       (simp_all add: dim_customers_conflict_def)
  with assms show ?thesis
    by (simp add: one_current_def build_dim_customers_def Let_def)
qed

lemma build_dim_products_one_current:
  assumes "one_current s"
  shows "one_current (fst (build_dim_products today s))"
proof -
  from assms have d: "distinct (map dp_product_id (filter dp_is_current (dim_products s)))"
    by (simp add: one_current_def)
  have "distinct (map dp_product_id (filter dp_is_current
          (fst (insert_on_conflict dim_products_conflict
                  (\<lambda>sk p. \<lparr>dp_product_sk = sk, dp_product_id = p_product_id p,
                             dp_info = p_info p, dp_is_current = True,
                             dp_effective_date = today, dp_end_date = None\<rparr>)
                  (filter p_is_active (production_products s))
                  (dim_products s, seq_product_sk s, 0)))))"
    by (rule insert_keeps_distinct [where kc = p_product_id, OF _ _ d])
       (simp_all add: dim_products_conflict_def)
  with assms show ?thesis
    by (simp add: one_current_def build_dim_products_def Let_def)
qed

lemma apply_scd_type2_one_current:
  "one_current s \<Longrightarrow> one_current (fst (apply_scd_type2 today dimension_name s))"
  unfolding one_current_def apply_scd_type2_def
  using retire_keeps_distinct [where P = dc_is_current and kr = dc_customer_id
      and upd = "\<lambda>r. r\<lparr>dc_is_current := False, dc_end_date := Some (today - 1)\<rparr>"
      and H = "inactive_customer s" and tbl = "dim_customers s"]
    retire_keeps_distinct [where P = dp_is_current and kr = dp_product_id
      and upd = "\<lambda>r. r\<lparr>dp_is_current := False, dp_end_date := Some (today - 1)\<rparr>"
      and H = "inactive_product s" and tbl = "dim_products s"]
  by simp

lemma other_steps_keep_dimensions:
  "dim_customers (fst (build_dim_payment_method s)) = dim_customers s"
  "dim_products (fst (build_dim_payment_method s)) = dim_products s"
  "dim_customers (fst (build_fact_sales s)) = dim_customers s"
  "dim_products (fst (build_fact_sales s)) = dim_products s"
  "dim_customers (fst (build_agg_daily_sales s)) = dim_customers s"
  "dim_products (fst (build_agg_daily_sales s)) = dim_products s"
  "dim_customers (fst (build_agg_product_sales s)) = dim_customers s"
  "dim_products (fst (build_agg_product_sales s)) = dim_products s"
  "dim_customers (fst (build_agg_customer_lifetime s)) = dim_customers s"
  "dim_products (fst (build_agg_customer_lifetime s)) = dim_products s"
  by (simp_all add: build_dim_payment_method_def build_fact_sales_def
        build_agg_daily_sales_def build_agg_product_sales_def
        build_agg_customer_lifetime_def Let_def)

lemma build_dim_date_keeps_dimensions:
  "build_dim_date a b s = Inr r \<Longrightarrow>
   dim_customers (fst r) = dim_customers s \<and> dim_products (fst r) = dim_products s"
  by (auto simp add: build_dim_date_def Let_def split: option.splits)

lemma step_effect_one_current:
  assumes "one_current s" and "step_effect today st s = Inr r"
  shows "one_current (fst r)"
proof (cases st)
  case DimCustomers
  with assms build_dim_customers_one_current [of s today] show ?thesis
    by (auto simp add: step_effect_def Let_def)
next
  case DimProducts
  with assms build_dim_products_one_current [of s today] show ?thesis
    by (auto simp add: step_effect_def Let_def)
next
  case DimDate
  with assms(2) obtain r' where
    "build_dim_date (fst (transaction_date_range s)) (snd (transaction_date_range s)) s = Inr r'"
    and "fst r = fst r'"
    by (auto simp add: step_effect_def Let_def split: sum.splits)
  with build_dim_date_keeps_dimensions [of _ _ s r'] assms(1) show ?thesis
    by (simp add: one_current_def)
next
  case DimPaymentMethod
  with assms show ?thesis
    by (auto simp add: step_effect_def Let_def one_current_def other_steps_keep_dimensions)
next
  case FactSales
  with assms show ?thesis
    by (auto simp add: step_effect_def Let_def one_current_def other_steps_keep_dimensions)
next
  case AggDailySales
  with assms show ?thesis
    by (auto simp add: step_effect_def Let_def one_current_def other_steps_keep_dimensions)
next
  case AggProductSales
  with assms show ?thesis
    by (auto simp add: step_effect_def Let_def one_current_def other_steps_keep_dimensions)
next
  case AggCustomerLifetime
  with assms show ?thesis
    by (auto simp add: step_effect_def Let_def one_current_def other_steps_keep_dimensions)
next
  case ScdCustomers
  with assms apply_scd_type2_one_current [of s today "''dim_customers''"] show ?thesis
    by (auto simp add: step_effect_def Let_def)
next
  case ScdProducts
  with assms apply_scd_type2_one_current [of s today "''dim_products''"] show ?thesis
    by (auto simp add: step_effect_def Let_def)
qed

lemma run_steps_one_current:
  "one_current s \<Longrightarrow> run_steps today fails sts (s, lg) = Inr r \<Longrightarrow> one_current (fst r)"
proof (induction sts arbitrary: s lg)
  case Nil
  then show ?case by auto
next
  case (Cons st sts)
  from Cons.prems(2) obtain r1 where r1: "step_effect today st s = Inr r1"
    and rest: "run_steps today fails sts (fst r1, lg @ [snd r1]) = Inr r"
    by (auto simp add: execute_def split: sum.splits if_splits)
  from step_effect_one_current [OF Cons.prems(1) r1] have "one_current (fst r1)" .
  from Cons.IH [OF this rest] show ?case .
qed

lemma main_one_current: "one_current s \<Longrightarrow> one_current (fst (main today fails s))"
  using run_steps_one_current [of s today fails main_steps "[]"]
  by (auto simp add: main_def main_transaction_def split: sum.splits)

lemma apply_op_one_current: "one_current s \<Longrightarrow> one_current (apply_op op s)"
proof (cases op)
  case (ProductionChange cs ps ts tis sts)
  assume "one_current s"
  with ProductionChange show ?thesis by (simp add: one_current_def)
next
  case (RunMain today fails)
  assume "one_current s"
  with RunMain main_one_current [of s today fails] show ?thesis by simp
next
  case (RunBuildDimCustomers today)
  assume "one_current s"
  with RunBuildDimCustomers build_dim_customers_one_current [of s today] show ?thesis by simp
next
  case (RunBuildDimProducts today)
  assume "one_current s"
  with RunBuildDimProducts build_dim_products_one_current [of s today] show ?thesis by simp
next
  case (RunApplyScd today dimension_name)
  assume "one_current s"
  with RunApplyScd apply_scd_type2_one_current [of s today dimension_name] show ?thesis by simp
qed

lemma run_ops_one_current: "one_current s \<Longrightarrow> one_current (run_ops ops s)"
  by (induction ops arbitrary: s) (simp_all add: apply_op_one_current)

lemma at_most_one_with_key:
  "distinct (map kr xs) \<Longrightarrow> length (filter (\<lambda>r. kr r = k) xs) \<le> 1"
proof (induction xs)
  case Nil
  then show ?case by simp
next
  case (Cons x xs)
  show ?case
  proof (cases "kr x = k")
    case True
    with Cons.prems have "k \<notin> kr ` set xs" by auto
    then have "filter (\<lambda>r. kr r = k) xs = []"
      by (auto simp add: filter_empty_conv)
    with True show ?thesis by simp
  next
    case False
    with Cons show ?thesis by simp
  qed
qed

lemma one_current_rows:
  assumes "one_current s"
  shows "length (current_customer_rows k s) \<le> 1 \<and> length (current_product_rows k s) \<le> 1"
proof -
  have c: "current_customer_rows k s =
           filter (\<lambda>r. dc_customer_id r = k) (filter dc_is_current (dim_customers s))"
    by (simp add: current_customer_rows_def conj_commute)
  have p: "current_product_rows k s =
           filter (\<lambda>r. dp_product_id r = k) (filter dp_is_current (dim_products s))"
    by (simp add: current_product_rows_def conj_commute)
  from assms show ?thesis
    unfolding c p one_current_def
    using at_most_one_with_key [of dc_customer_id "filter dc_is_current (dim_customers s)" k]
      at_most_one_with_key [of dp_product_id "filter dp_is_current (dim_products s)" k]
    by blast
qed

lemma empty_store_one_current: "one_current empty_store"
  by (simp add: one_current_def empty_store_def)

text \<open>
  Claim C1. Take a store in which no business key has two current customer rows or two
  current product rows; the empty warehouse is one. After any sequence of changes of
  the production data, whole builds (committed or rolled back), dimension inserts and
  SCD retirements, in any order and on any days, every business key still has at most
  one current row in the customer dimension and at most one in the product dimension.
\<close>

theorem one_current_row_per_key:
  assumes "one_current s"
  shows "one_current (run_ops ops s) \<and>
         (\<forall>k. length (current_customer_rows k (run_ops ops s)) \<le> 1 \<and>
              length (current_product_rows k (run_ops ops s)) \<le> 1) \<and>
         (\<forall>k. length (current_customer_rows k (run_ops ops empty_store)) \<le> 1 \<and>
              length (current_product_rows k (run_ops ops empty_store)) \<le> 1)"
proof -
  have a: "one_current (run_ops ops s)"
    by (rule run_ops_one_current [OF assms])
  have b: "one_current (run_ops ops empty_store)"
    by (rule run_ops_one_current [OF empty_store_one_current])
  from a one_current_rows [OF a] one_current_rows [OF b] show ?thesis
    by blast
qed

theorem one_current_row_per_key_witness:
  "one_current empty_store \<and>
   map (\<lambda>r. (dc_customer_id r, dc_is_current r, dc_end_date r))
     (dim_customers (run_ops history empty_store)) =
     [(''CUST0001'', False, Some (ymd2ord 2024 2 29))] \<and>
   map (\<lambda>r. (dp_product_id r, dp_is_current r)) (dim_products (run_ops history empty_store)) =
     [(''PROD0001'', True)] \<and>
   one_current (run_ops history empty_store) \<and>
   length (current_product_rows ''PROD0001'' (run_ops history empty_store)) \<le> 1"
proof -
  have a: "map (\<lambda>r. (dc_customer_id r, dc_is_current r, dc_end_date r))
     (dim_customers (run_ops history empty_store)) =
     [(''CUST0001'', False, Some (ymd2ord 2024 2 29))]"
    by code_simp
  have b: "map (\<lambda>r. (dp_product_id r, dp_is_current r)) (dim_products (run_ops history empty_store)) =
     [(''PROD0001'', True)]"
    by code_simp
  have e: "one_current empty_store"
    by (simp add: one_current_def empty_store_def)
  from one_current_row_per_key [OF e, of history]
  have "one_current (run_ops history empty_store) \<and>
        length (current_product_rows ''PROD0001'' (run_ops history empty_store)) \<le> 1"
    by blast
  with a b e show ?thesis by (simp only: simp_thms)
qed

end
